theory Spec2Isabelle
  imports Complex_Main "HOL-Library.AList"
begin

section \<open>Exceptions and strings\<close>

text \<open>
  The exception classes that the service raises or that reach it from the libraries it
  calls. Every constructor carries the text that \<^verbatim>\<open>str(e)\<close> prints, apart from
  \<open>HTTPException\<close>, which carries its status code and its detail. \<open>IOError\<close> stands for
  every \<^verbatim>\<open>OSError\<close> that is not a \<^verbatim>\<open>FileNotFoundError\<close> (Python 3 makes the two names
  aliases), among them PIL's \<^verbatim>\<open>UnidentifiedImageError\<close>.
\<close>

datatype exn =
    FileNotFoundError string
  | IOError string
  | JSONDecodeError string
  | AttributeError string
  | ValueError string
  | KeyError string
  | IndexError string
  | RuntimeError string
  | HTTPException nat string

definition digit_char :: "nat \<Rightarrow> char" where
  "digit_char n = char_of (48 + n)"

fun show_nat :: "nat \<Rightarrow> string" where
  "show_nat n = (if n < 10 then [digit_char n] else show_nat (n div 10) @ [digit_char (n mod 10)])"

declare show_nat.simps [simp del]

definition show_int :: "int \<Rightarrow> string" where
  "show_int i = (if i < 0 then CHR ''-'' # show_nat (nat (- i)) else show_nat (nat i))"

text \<open>\<^verbatim>\<open>repr\<close> of a string without quotes or escapes in it.\<close>

definition repr :: "string \<Rightarrow> string" where
  "repr s = [CHR 0x27] @ s @ [CHR 0x27]"

fun str :: "exn \<Rightarrow> string" where
  "str (FileNotFoundError m) = m"
| "str (IOError m) = m"
| "str (JSONDecodeError m) = m"
| "str (AttributeError m) = m"
| "str (ValueError m) = m"
| "str (KeyError m) = m"
| "str (IndexError m) = m"
| "str (RuntimeError m) = m"
| "str (HTTPException c d) = show_nat c @ '': '' @ d"

section \<open>The files the service reads\<close>

text \<open>
  What \<^verbatim>\<open>json.load\<close> returns for the label file: a JSON object, as the list of its
  members in the order of the text (a text may repeat a key), or another JSON value,
  of which only the name of its Python type matters (\<^verbatim>\<open>list\<close>, \<^verbatim>\<open>str\<close>, \<^verbatim>\<open>int\<close>, ...).
  The members' values are strings, as the annotation \<^verbatim>\<open>Dict[int, str]\<close> of
  \<^verbatim>\<open>load_labels\<close> declares.
\<close>

datatype json = JObject "(string \<times> string) list" | JOther string

text \<open>
  The content of the label file: bytes that are no text in the encoding of \<^verbatim>\<open>open\<close>, with
  the text of the \<^verbatim>\<open>UnicodeDecodeError\<close> (a \<^verbatim>\<open>ValueError\<close>) that reading them raises; text
  that is not JSON, with the text of the \<^verbatim>\<open>JSONDecodeError\<close>; or JSON.
\<close>

datatype json_file = NotText string | NotJSON string | JSON json

text \<open>
  A Python dict is an association list with distinct keys in insertion order: storing
  under a key that is present replaces its value in place, a new key goes to the end.
\<close>

type_synonym ('k, 'v) dict = "('k \<times> 'v) list"

definition dict_of_pairs :: "('k \<times> 'v) list \<Rightarrow> ('k, 'v) dict" where
  "dict_of_pairs kvs = foldl (\<lambda>d (k, v). AList.update k v d) [] kvs"

text \<open>An image as PIL holds it.\<close>

datatype mode = L | LA | P | RGB | RGBA | CMYK | YCbCr | LAB | HSV

fun bands :: "mode \<Rightarrow> nat" where
  "bands L = 1"
| "bands LA = 2"
| "bands P = 1"
| "bands RGB = 3"
| "bands RGBA = 4"
| "bands CMYK = 4"
| "bands YCbCr = 3"
| "bands LAB = 3"
| "bands HSV = 3"

text \<open>Pixel data: the value of band \<open>c\<close> at column \<open>x\<close> and row \<open>y\<close> is \<open>px x y c\<close>.\<close>

type_synonym pixels = "nat \<Rightarrow> nat \<Rightarrow> nat \<Rightarrow> nat"

text \<open>
  \<^verbatim>\<open>Image.open\<close> reads the header only; the pixel data is decoded at the first operation
  that needs it. \<open>data\<close> is what that decoding gives: the pixels, or the text of the
  \<^verbatim>\<open>OSError\<close> it raises (a truncated or corrupt file behind a valid header).
\<close>

record image =
  mode :: mode
  size :: "nat \<times> nat"
  data :: "string + pixels"

datatype image_file = Unidentified | Encoded image

type_synonym tensor3 = "real list list list"
type_synonym tensor4 = "real list list list list"

text \<open>
  The state dict of a checkpoint: the backbone's parameters, as the feature map they
  compute, and the weight and bias of the linear classification head
  (\<^verbatim>\<open>classifier.1\<close>), one row of the weight and one bias per class.
\<close>

record state_dict =
  features :: "tensor3 \<Rightarrow> real list"
  weight :: "real list list"
  bias :: "real list"

record checkpoint =
  model_state_dict :: "state_dict option"
  val_acc :: "real option"

text \<open>
  What the operating system finds at a path: no entry of that name, a regular file
  where the path needs a directory, a name that is too long, a directory, a file that
  may not be read, another failure with its text, or a file with its content.
\<close>

datatype 'a entry =
    NoEntry
  | NotADirectory
  | NameTooLong
  | IsADirectory
  | PermissionDenied
  | OtherOSError string
  | File 'a

record env =
  json_files :: "string \<Rightarrow> json_file entry"
  checkpoints :: "string \<Rightarrow> checkpoint entry"
  image_files :: "string \<Rightarrow> image_file entry"

definition errno2 :: "string \<Rightarrow> string" where
  "errno2 path = ''[Errno 2] No such file or directory: '' @ repr path"

text \<open>
  \<^verbatim>\<open>open(path)\<close> for reading. Only a missing entry raises \<^verbatim>\<open>FileNotFoundError\<close>; the
  other failures raise other subclasses of \<^verbatim>\<open>OSError\<close>, and a path with a NUL character
  raises \<^verbatim>\<open>ValueError\<close> before the file system is asked. The messages name the path as
  the caller wrote it.
\<close>

definition open_file :: "(string \<Rightarrow> 'a entry) \<Rightarrow> string \<Rightarrow> exn + 'a" where
  "open_file files path =
     (if CHR 0x00 \<in> set path then Inl (ValueError ''embedded null byte'')
      else case files path of
        NoEntry \<Rightarrow> Inl (FileNotFoundError (errno2 path))
      | NotADirectory \<Rightarrow> Inl (IOError (''[Errno 20] Not a directory: '' @ repr path))
      | NameTooLong \<Rightarrow> Inl (IOError (''[Errno 36] File name too long: '' @ repr path))
      | IsADirectory \<Rightarrow> Inl (IOError (''[Errno 21] Is a directory: '' @ repr path))
      | PermissionDenied \<Rightarrow> Inl (IOError (''[Errno 13] Permission denied: '' @ repr path))
      | OtherOSError msg \<Rightarrow> Inl (IOError msg)
      | File content \<Rightarrow> Inr content)"

section \<open>Library functions\<close>

text \<open>
  The functions of Python, torch and PIL whose results the service passes on are
  parameters: \<open>int_of_str\<close> is the built-in \<^verbatim>\<open>int\<close> on a string, with the exception it
  raises when it refuses the string;
  \<open>topk\<close> is \<^verbatim>\<open>torch.topk\<close> on one row, giving the selected values with their indices;
  \<open>resample\<close> is the interpolation of \<^verbatim>\<open>Image.resize\<close>, from the old size and pixels to
  the pixels of the new size; \<open>to_rgb\<close> is the colour conversion of
  \<^verbatim>\<open>Image.convert('RGB')\<close> from a given mode.
\<close>

record lib =
  int_of_str :: "string \<Rightarrow> exn + int"
  topk :: "real list \<Rightarrow> int \<Rightarrow> exn + (real \<times> nat) list"
  resample :: "nat \<times> nat \<Rightarrow> pixels \<Rightarrow> nat \<times> nat \<Rightarrow> pixels"
  to_rgb :: "mode \<Rightarrow> pixels \<Rightarrow> pixels"

text \<open>\<^verbatim>\<open>int\<close> on a string raises nothing but \<^verbatim>\<open>ValueError\<close>.\<close>

definition int_contract :: "lib \<Rightarrow> bool" where
  "int_contract lb \<longleftrightarrow> (\<forall>s e. int_of_str lb s = Inl e \<longrightarrow> (\<exists>m. e = ValueError m))"

text \<open>
  What the documentation of \<^verbatim>\<open>torch.topk\<close> promises: an error when \<open>k\<close> is out of
  range; otherwise the \<open>k\<close> largest entries with their indices, largest first. It does
  not say which of two equal entries comes first.
\<close>

definition topk_contract :: "lib \<Rightarrow> bool" where
  "topk_contract lb \<longleftrightarrow>
     (\<forall>row k.
        (case topk lb row k of
           Inl e \<Rightarrow> (k < 0 \<or> int (length row) < k) \<and> (\<exists>m. e = RuntimeError m)
         | Inr r \<Rightarrow>
             0 \<le> k \<and> k \<le> int (length row) \<and> length r = nat k \<and>
             (\<forall>(v, i) \<in> set r. i < length row \<and> v = row ! i) \<and>
             distinct (map snd r) \<and>
             sorted_wrt (\<lambda>a b. b \<le> a) (map fst r) \<and>
             (\<forall>j < length row. j \<notin> snd ` set r \<longrightarrow> (\<forall>v \<in> fst ` set r. row ! j \<le> v))))"

text \<open>One function that meets it: a stable sort, so that the lower index wins a tie.\<close>

definition topk_stable :: "real list \<Rightarrow> int \<Rightarrow> exn + (real \<times> nat) list" where
  "topk_stable row k =
     (if k < 0 \<or> int (length row) < k then Inl (RuntimeError ''selected index k out of range'')
      else Inr (take (nat k) (map (\<lambda>i. (row ! i, i)) (sort_key (\<lambda>i. - (row ! i)) [0..<length row]))))"

section \<open>Label table\<close>

text \<open>The dict comprehension \<^verbatim>\<open>{int(k): v for k, v in labels_data.items()}\<close>.\<close>

fun int_keys :: "lib \<Rightarrow> (string, string) dict \<Rightarrow> (int, string) dict \<Rightarrow> exn + (int, string) dict" where
  "int_keys lb [] acc = Inr acc"
| "int_keys lb ((k, v) # kvs) acc =
     (case int_of_str lb k of
        Inl e \<Rightarrow> Inl e
      | Inr i \<Rightarrow> int_keys lb kvs (AList.update i v acc))"

text \<open>Each of the three handlers logs and raises the exception again.\<close>

definition load_labels :: "lib \<Rightarrow> env \<Rightarrow> string \<Rightarrow> exn + (int, string) dict" where
  "load_labels lb env labels_path =
     (case open_file (json_files env) labels_path of
        Inl e \<Rightarrow> Inl e
      | Inr (NotText msg) \<Rightarrow> Inl (ValueError msg)
      | Inr (NotJSON msg) \<Rightarrow> Inl (JSONDecodeError msg)
      | Inr (JSON (JOther t)) \<Rightarrow>
          Inl (AttributeError (repr t @ '' object has no attribute '' @ repr ''items''))
      | Inr (JSON (JObject kvs)) \<Rightarrow> int_keys lb (dict_of_pairs kvs) [])"

section \<open>Preprocessor\<close>

text \<open>\<^verbatim>\<open>image.convert('RGB')\<close> decodes the pixel data, which can fail.\<close>

definition convert_RGB :: "lib \<Rightarrow> image \<Rightarrow> exn + image" where
  "convert_RGB lb im =
     (case data im of
        Inl msg \<Rightarrow> Inl (IOError msg)
      | Inr px \<Rightarrow> Inr (im\<lparr>mode := RGB, data := Inr (to_rgb lb (mode im) px)\<rparr>))"

text \<open>\<^verbatim>\<open>Image.open\<close> opens the file, then looks for a format that knows its header.\<close>

definition Image_open :: "env \<Rightarrow> string \<Rightarrow> exn + image" where
  "Image_open env image_path =
     (case open_file (image_files env) image_path of
        Inl e \<Rightarrow> Inl e
      | Inr Unidentified \<Rightarrow> Inl (IOError (''cannot identify image file '' @ repr image_path))
      | Inr (Encoded im) \<Rightarrow> Inr im)"

text \<open>Lines 46 to 48 of \<^verbatim>\<open>load_image\<close>: convert to RGB if necessary.\<close>

definition ensure_RGB :: "lib \<Rightarrow> image \<Rightarrow> exn + image" where
  "ensure_RGB lb im = (if mode im \<noteq> RGB then convert_RGB lb im else Inr im)"

definition load_image :: "lib \<Rightarrow> env \<Rightarrow> string \<Rightarrow> exn + image" where
  "load_image lb env image_path =
     (case (case Image_open env image_path of Inl e \<Rightarrow> Inl e | Inr im \<Rightarrow> ensure_RGB lb im) of
        Inl (FileNotFoundError m) \<Rightarrow> Inl (FileNotFoundError (''Image file not found: '' @ image_path))
      | Inl e \<Rightarrow> Inl (IOError (''Error loading image '' @ image_path @ '': '' @ str e))
      | Inr im \<Rightarrow> Inr im)"

text \<open>\<^verbatim>\<open>transforms.Resize((h, w))\<close> of a PIL image; PIL sizes are (width, height).\<close>

definition Resize :: "lib \<Rightarrow> nat \<times> nat \<Rightarrow> image \<Rightarrow> exn + image" where
  "Resize lb hw im =
     (case data im of
        Inl msg \<Rightarrow> Inl (IOError msg)
      | Inr px \<Rightarrow>
          Inr (im\<lparr>size := (snd hw, fst hw),
                  data := Inr (resample lb (size im) px (snd hw, fst hw))\<rparr>))"

text \<open>\<^verbatim>\<open>transforms.ToTensor()\<close>: channels by rows by columns, bytes scaled to [0, 1].\<close>

definition ToTensor :: "image \<Rightarrow> exn + tensor3" where
  "ToTensor im =
     (case data im of
        Inl msg \<Rightarrow> Inl (IOError msg)
      | Inr px \<Rightarrow>
          Inr (map (\<lambda>c. map (\<lambda>y. map (\<lambda>x. real (px x y c) / 255) [0..<fst (size im)])
                              [0..<snd (size im)])
                   [0..<bands (mode im)]))"

text \<open>
  \<^verbatim>\<open>transforms.Normalize(mean, std)\<close> subtracts and divides in place, which torch
  refuses when the tensor's channels are not as many as the means.
\<close>

definition Normalize :: "real list \<Rightarrow> real list \<Rightarrow> tensor3 \<Rightarrow> exn + tensor3" where
  "Normalize mean std t =
     (if length t \<noteq> length mean then
        Inl (RuntimeError ''output shape does not match the broadcast shape'')
      else Inr (map (\<lambda>(c, plane). map (map (\<lambda>v. (v - mean ! c) / std ! c)) plane)
                    (zip [0..<length t] t)))"

record ImagePreprocessor =
  img_size :: nat
  transform :: "image \<Rightarrow> exn + tensor3"

definition ImagePreprocessor_init :: "lib \<Rightarrow> nat \<Rightarrow> ImagePreprocessor" where
  "ImagePreprocessor_init lb sz =
     \<lparr>img_size = sz,
      transform = (\<lambda>im.
        case Resize lb (sz, sz) im of
          Inl e \<Rightarrow> Inl e
        | Inr im1 \<Rightarrow>
            (case ToTensor im1 of
               Inl e \<Rightarrow> Inl e
             | Inr t \<Rightarrow> Normalize [485 / 1000, 456 / 1000, 406 / 1000]
                                   [229 / 1000, 224 / 1000, 225 / 1000] t))\<rparr>"

definition unsqueeze0 :: "tensor3 \<Rightarrow> tensor4" where
  "unsqueeze0 t = [t]"

definition preprocess :: "ImagePreprocessor \<Rightarrow> image \<Rightarrow> exn + tensor4" where
  "preprocess self im =
     (case transform self im of Inl e \<Rightarrow> Inl e | Inr t \<Rightarrow> Inr (unsqueeze0 t))"

definition preprocess_from_path ::
    "lib \<Rightarrow> ImagePreprocessor \<Rightarrow> env \<Rightarrow> string \<Rightarrow> exn + tensor4" where
  "preprocess_from_path lb self env image_path =
     (case load_image lb env image_path of
        Inl e \<Rightarrow> Inl e
      | Inr im \<Rightarrow> preprocess self im)"

text \<open>The shape of a tensor with a batch dimension.\<close>

definition has_shape :: "nat \<Rightarrow> nat \<Rightarrow> nat \<Rightarrow> nat \<Rightarrow> tensor4 \<Rightarrow> bool" where
  "has_shape b c h w t \<longleftrightarrow>
     length t = b \<and>
     (\<forall>s \<in> set t. length s = c \<and>
        (\<forall>plane \<in> set s. length plane = h \<and> (\<forall>r \<in> set plane. length r = w)))"

section \<open>Classifier model\<close>

text \<open>
  \<^verbatim>\<open>build_model\<close> puts a linear head with \<open>num_classes\<close> rows on the 1280 features of
  EfficientNet-B0. \<^verbatim>\<open>load_state_dict\<close> compares the shape of every parameter of the
  checkpoint with the shape the built model expects and raises \<^verbatim>\<open>RuntimeError\<close> on a
  difference, with a message that names the parameter (its list of shapes is left out
  here); the backbone's shapes are those of the architecture in both.
\<close>

definition num_features :: nat where
  "num_features = 1280"

record module =
  head_rows :: nat
  head_cols :: nat

definition build_model :: "nat \<Rightarrow> module" where
  "build_model num_classes = \<lparr>head_rows = num_classes, head_cols = num_features\<rparr>"

definition load_state_dict :: "module \<Rightarrow> state_dict \<Rightarrow> exn + state_dict" where
  "load_state_dict m sd =
     (if length (weight sd) = head_rows m \<and> list_all (\<lambda>r. length r = head_cols m) (weight sd)
         \<and> length (bias sd) = head_rows m
      then Inr sd
      else Inl (RuntimeError
             ''Error(s) in loading state_dict for EfficientNet: size mismatch for classifier.1''))"

definition load_model :: "env \<Rightarrow> string \<Rightarrow> nat \<Rightarrow> exn + state_dict" where
  "load_model env model_path num_classes =
     (let m = build_model num_classes in
      case open_file (checkpoints env) model_path of
        Inl e \<Rightarrow> Inl e
      | Inr ck \<Rightarrow>
          (case model_state_dict ck of
             None \<Rightarrow> Inl (KeyError (repr ''model_state_dict''))
           | Some sd \<Rightarrow> load_state_dict m sd))"

text \<open>The forward pass in evaluation mode: the features, then the linear head.\<close>

definition linear :: "real list list \<Rightarrow> real list \<Rightarrow> real list \<Rightarrow> real list" where
  "linear w b x = map (\<lambda>(r, c). sum_list (map (\<lambda>(a, v). a * v) (zip r x)) + c) (zip w b)"

definition forward :: "state_dict \<Rightarrow> tensor4 \<Rightarrow> real list list" where
  "forward m batch = map (\<lambda>x. linear (weight m) (bias m) (features m x)) batch"

section \<open>Scoring\<close>

text \<open>Scores and probabilities are real numbers here; the code computes them in floats.\<close>

definition softmax :: "real list \<Rightarrow> real list" where
  "softmax xs = map (\<lambda>x. exp x / sum_list (map exp xs)) xs"

text \<open>\<^verbatim>\<open>round(x, ndigits)\<close>: to the nearest multiple of the unit, halves to the even one.\<close>

definition py_round :: "real \<Rightarrow> nat \<Rightarrow> real" where
  "py_round x ndigits =
     (let y = x * 10 ^ ndigits; f = \<lfloor>y\<rfloor>; d = y - of_int f
      in of_int (if d < 1 / 2 then f else if 1 / 2 < d then f + 1
                 else if even f then f else f + 1) / 10 ^ ndigits)"

record Prediction =
  label :: string
  confidence :: real

text \<open>\<^verbatim>\<open>torch.topk\<close> works on every row of the batch.\<close>

fun topk_rows :: "lib \<Rightarrow> real list list \<Rightarrow> int \<Rightarrow> exn + (real \<times> nat) list list" where
  "topk_rows lb [] k = Inr []"
| "topk_rows lb (r # rs) k =
     (case topk lb r k of
        Inl e \<Rightarrow> Inl e
      | Inr t \<Rightarrow> (case topk_rows lb rs k of Inl e \<Rightarrow> Inl e | Inr ts \<Rightarrow> Inr (t # ts)))"

text \<open>The loop over \<^verbatim>\<open>zip(top_probs[0], top_indices[0])\<close>.\<close>

fun format_predictions :: "(int, string) dict \<Rightarrow> (real \<times> nat) list \<Rightarrow> exn + Prediction list" where
  "format_predictions labels [] = Inr []"
| "format_predictions labels ((prob, idx) # rest) =
     (case map_of labels (int idx) of
        None \<Rightarrow> Inl (KeyError (show_int (int idx)))
      | Some l \<Rightarrow>
          (case format_predictions labels rest of
             Inl e \<Rightarrow> Inl e
           | Inr ps \<Rightarrow> Inr (\<lparr>label = l, confidence = py_round prob 4\<rparr> # ps)))"

text \<open>Lines 168 to 181 of \<^verbatim>\<open>predict\<close>: from the raw scores to the predictions.\<close>

definition rank :: "lib \<Rightarrow> (int, string) dict \<Rightarrow> int \<Rightarrow> real list list \<Rightarrow> exn + Prediction list" where
  "rank lb labels top_k outputs =
     (let probabilities = map softmax outputs in
      case topk_rows lb probabilities (min top_k (int (length labels))) of
        Inl e \<Rightarrow> Inl e
      | Inr [] \<Rightarrow> Inl (IndexError ''index 0 is out of bounds for dimension 0 with size 0'')
      | Inr (row0 # _) \<Rightarrow> format_predictions labels row0)"

section \<open>Inference service\<close>

record service =
  model :: "state_dict option"
  labels_map :: "(int, string) dict option"
  preprocessor :: "ImagePreprocessor option"

definition uninitialized :: service where
  "uninitialized = \<lparr>model = None, labels_map = None, preprocessor = None\<rparr>"

record Config =
  MODEL_PATH :: string
  LABELS_PATH :: string
  TOP_K :: int

definition IMG_SIZE :: nat where
  "IMG_SIZE = 224"

text \<open>The body of the \<^verbatim>\<open>try\<close> statement of \<^verbatim>\<open>predict\<close>.\<close>

definition predict_try ::
    "lib \<Rightarrow> env \<Rightarrow> state_dict \<Rightarrow> (int, string) dict \<Rightarrow> ImagePreprocessor \<Rightarrow> string \<Rightarrow> int
      \<Rightarrow> exn + Prediction list" where
  "predict_try lb env m labels pre image_path top_k =
     (case preprocess_from_path lb pre env image_path of
        Inl e \<Rightarrow> Inl e
      | Inr input_tensor \<Rightarrow> rank lb labels top_k (forward m input_tensor))"

definition predict :: "lib \<Rightarrow> env \<Rightarrow> service \<Rightarrow> string \<Rightarrow> int \<Rightarrow> exn + Prediction list" where
  "predict lb env st image_path top_k =
     (case (model st, labels_map st, preprocessor st) of
        (Some m, Some labels, Some pre) \<Rightarrow>
          (case predict_try lb env m labels pre image_path top_k of
             Inl (FileNotFoundError x) \<Rightarrow>
               Inl (HTTPException 404 (''Image file not found: '' @ image_path))
           | Inl e \<Rightarrow> Inl (HTTPException 500 (''Inference error: '' @ str e))
           | Inr ps \<Rightarrow> Inr ps)
      | _ \<Rightarrow> Inl (RuntimeError ''Model not loaded. Service not initialized properly.''))"

text \<open>
  Startup: the three globals are assigned one after the other; an exception is logged and
  raised again, which leaves the globals assigned so far and those after at \<open>None\<close>.
  The second component is the exception that startup raised, if it raised one.
\<close>

definition lifespan :: "lib \<Rightarrow> Config \<Rightarrow> env \<Rightarrow> service \<Rightarrow> service \<times> exn option" where
  "lifespan lb cfg env st =
     (case load_labels lb env (LABELS_PATH cfg) of
        Inl e \<Rightarrow> (st, Some e)
      | Inr labels \<Rightarrow>
          (let st1 = st\<lparr>labels_map := Some labels\<rparr>; num_classes = length labels in
           case load_model env (MODEL_PATH cfg) num_classes of
             Inl e \<Rightarrow> (st1, Some e)
           | Inr m \<Rightarrow>
               (st1\<lparr>model := Some m, preprocessor := Some (ImagePreprocessor_init lb IMG_SIZE)\<rparr>,
                None)))"

record InferenceResponse =
  predictions :: "Prediction list"

text \<open>
  The handler of \<^verbatim>\<open>POST /infer\<close>. The log line reads \<^verbatim>\<open>predictions[0]\<close> before the
  response is built.
\<close>

definition infer :: "lib \<Rightarrow> Config \<Rightarrow> env \<Rightarrow> service \<Rightarrow> string \<Rightarrow> exn + InferenceResponse" where
  "infer lb cfg env st image_path =
     (case (case predict lb env st image_path (TOP_K cfg) of
              Inl e \<Rightarrow> Inl e
            | Inr [] \<Rightarrow> Inl (IndexError ''list index out of range'')
            | Inr (p # ps) \<Rightarrow> Inr \<lparr>predictions = p # ps\<rparr>) of
        Inl (HTTPException c d) \<Rightarrow> Inl (HTTPException c d)
      | Inl e \<Rightarrow> Inl (HTTPException 500 (str e))
      | Inr response \<Rightarrow> Inr response)"

section \<open>Concrete inputs\<close>

text \<open>
  Python's \<^verbatim>\<open>int\<close> of a string in base 10, for strings of characters below 256
  (CPython 3.11). Whitespace around the literal is dropped: the whitespace of C, and
  the characters 133 and 160, which are the spaces of Unicode in that range; the
  characters 28 to 31 are not among them. One sign is allowed, then digits with single
  underscores between them. A literal of more than 4300 digits is refused, and that
  before anything that follows the literal is looked at.
\<close>

definition is_space :: "char \<Rightarrow> bool" where
  "is_space c = ((of_char c :: nat) \<in> set [9, 10, 11, 12, 13, 32, 133, 160])"

definition is_digit :: "char \<Rightarrow> bool" where
  "is_digit c = (48 \<le> (of_char c :: nat) \<and> (of_char c :: nat) \<le> 57)"

fun doubled :: "string \<Rightarrow> bool" where
  "doubled (a # b # cs) = ((a = CHR ''_'' \<and> b = CHR ''_'') \<or> doubled (b # cs))"
| "doubled cs = False"

definition digits_value :: "string \<Rightarrow> nat" where
  "digits_value ds = foldl (\<lambda>acc c. 10 * acc + (of_char c - 48)) 0 ds"

definition py_int :: "string \<Rightarrow> exn + int" where
  "py_int s =
     (let t = dropWhile is_space s;
          negative = (t \<noteq> [] \<and> hd t = CHR ''-'');
          u = (if t \<noteq> [] \<and> (hd t = CHR ''-'' \<or> hd t = CHR ''+'') then tl t else t);
          lit = takeWhile (\<lambda>c. is_digit c \<or> c = CHR ''_'') u;
          rest = dropWhile is_space (dropWhile (\<lambda>c. is_digit c \<or> c = CHR ''_'') u);
          ds = filter is_digit lit;
          invalid = Inl (ValueError (''invalid literal for int() with base 10: ''
                      @ take 200 (repr s)))
      in if lit = [] \<or> hd lit = CHR ''_'' \<or> last lit = CHR ''_'' \<or> doubled lit then invalid
         else if 4300 < length ds
         then Inl (ValueError (''Exceeds the limit (4300 digits) for integer string conversion: ''
                @ ''value has '' @ show_nat (length ds)
                @ '' digits; use sys.set_int_max_str_digits() to increase the limit''))
         else if rest \<noteq> [] then invalid
         else Inr (if negative then - int (digits_value ds) else int (digits_value ds)))"

text \<open>
  A library with that \<open>int\<close>, whose \<open>topk\<close> is the stable one, with nearest-neighbour
  resampling and a conversion that repeats the first band of a one-band image.
\<close>

definition nearest :: "nat \<times> nat \<Rightarrow> pixels \<Rightarrow> nat \<times> nat \<Rightarrow> pixels" where
  "nearest old px new = (\<lambda>x y c. px (x * fst old div fst new) (y * snd old div snd new) c)"

definition first_bands :: "mode \<Rightarrow> pixels \<Rightarrow> pixels" where
  "first_bands m px = (\<lambda>x y c. if bands m < 3 then px x y 0 else px x y c)"

definition example_lib :: lib where
  "example_lib =
     \<lparr>int_of_str = py_int, topk = topk_stable, resample = nearest, to_rgb = first_bands\<rparr>"

definition example_image :: "mode \<Rightarrow> image" where
  "example_image m = \<lparr>mode = m, size = (640, 480), data = Inr (\<lambda>x y c. (x + y + c) mod 256)\<rparr>"

definition truncated_image :: image where
  "truncated_image = \<lparr>mode = RGB, size = (640, 480), data = Inl ''image file is truncated''\<rparr>"

text \<open>A checkpoint whose head ignores the features: the scores are the biases \<open>b\<close>.\<close>

definition example_state_dict :: "real list \<Rightarrow> state_dict" where
  "example_state_dict b =
     \<lparr>features = (\<lambda>t. replicate 1280 0),
      weight = replicate (length b) (replicate 1280 0),
      bias = b\<rparr>"

definition example_checkpoint :: "real list \<Rightarrow> checkpoint" where
  "example_checkpoint b = \<lparr>model_state_dict = Some (example_state_dict b), val_acc = Some (9 / 10)\<rparr>"

definition not_utf8 :: string where
  "not_utf8 = repr ''utf-8'' @ '' codec can'' @ [CHR 0x27]
     @ ''t decode byte 0xff in position 0: invalid start byte''"

text \<open>
  A file system with a label file of members \<open>kvs\<close>, a file that is not JSON, one that
  holds a JSON list and one that is no text, a checkpoint with biases \<open>b\<close>, an RGB photograph, a greyscale
  one, a text file that is no image, a truncated photograph and a directory. A path that
  continues below the text file finds a regular file where it needs a directory.
\<close>

definition example_env :: "(string \<times> string) list \<Rightarrow> real list \<Rightarrow> env" where
  "example_env kvs b =
     \<lparr>json_files = (\<lambda>p.
        if p = ''labels.json'' then File (JSON (JObject kvs))
        else if p = ''broken.json''
          then File (NotJSON ''Expecting value: line 1 column 1 (char 0)'')
        else if p = ''list.json'' then File (JSON (JOther ''list''))
        else if p = ''binary.json'' then File (NotText not_utf8)
        else NoEntry),
      checkpoints = (\<lambda>p. if p = ''best.pth'' then File (example_checkpoint b) else NoEntry),
      image_files = (\<lambda>p.
        if p = ''rosette.jpg'' then File (Encoded (example_image RGB))
        else if p = ''grey.png'' then File (Encoded (example_image L))
        else if p = ''notes.txt'' then File Unidentified
        else if p = ''cut.jpg'' then File (Encoded truncated_image)
        else if p = ''uploads'' then IsADirectory
        else if p = ''notes.txt/rosette.jpg'' then NotADirectory
        else NoEntry)\<rparr>"

definition example_config :: "int \<Rightarrow> Config" where
  "example_config k = \<lparr>MODEL_PATH = ''best.pth'', LABELS_PATH = ''labels.json'', TOP_K = k\<rparr>"

text \<open>The state that startup leaves behind.\<close>

definition started :: "(string \<times> string) list \<Rightarrow> real list \<Rightarrow> service" where
  "started kvs b = fst (lifespan example_lib (example_config 3) (example_env kvs b) uninitialized)"

definition species :: "(string \<times> string) list" where
  "species = [(''0'', ''echeveria_elegans''), (''1'', ''haworthia_fasciata''),
              (''2'', ''sedum_morganianum'')]"

definition twice_zero :: "(string \<times> string) list" where
  "twice_zero = [(''0'', ''echeveria_elegans''), (''0'', ''haworthia_fasciata''),
                 (''2'', ''sedum_morganianum'')]"

text \<open>Three members with different keys, two of which denote the index 1.\<close>

definition one_twice :: "(string \<times> string) list" where
  "one_twice = [(''0'', ''echeveria_elegans''), (''1'', ''haworthia_fasciata''),
                (''01'', ''sedum_morganianum'')]"

section \<open>Requests before the service is initialized\<close>

text \<open>
  C6. While the model, the label table or the preprocessor is not yet constructed,
  \<open>predict\<close> raises its \<^verbatim>\<open>RuntimeError\<close> and the handler answers with status 500:
  a request is rejected and never answered with a prediction.
\<close>

theorem predict_rejects_before_init:
  assumes "model st = None \<or> labels_map st = None \<or> preprocessor st = None"
  shows "predict lb env st image_path top_k
           = Inl (RuntimeError ''Model not loaded. Service not initialized properly.'')
       \<and> infer lb cfg env st image_path
           = Inl (HTTPException 500 ''Model not loaded. Service not initialized properly.'')"
  using assms by (auto simp: predict_def infer_def split: option.splits)

theorem predict_rejects_before_init_witness:
  "(model uninitialized = None \<or> labels_map uninitialized = None
      \<or> preprocessor uninitialized = None)
   \<and> predict example_lib (example_env species [2, 5, 1 / 10]) uninitialized ''rosette.jpg'' 3
         = Inl (RuntimeError ''Model not loaded. Service not initialized properly.'')
   \<and> infer example_lib (example_config 3) (example_env species [2, 5, 1 / 10]) uninitialized
         ''rosette.jpg''
         = Inl (HTTPException 500 ''Model not loaded. Service not initialized properly.'')"
  using predict_rejects_before_init [of uninitialized example_lib
      "example_env species [2, 5, 1 / 10]" "''rosette.jpg''" 3 "example_config 3"]
  by (simp add: uninitialized_def)

section \<open>Loading the label table\<close>

lemma dict_keys_foldl:
  "fst ` set (foldl (\<lambda>d (k, v). AList.update k v d) acc kvs) = fst ` set acc \<union> fst ` set kvs"
proof (induction kvs arbitrary: acc)
  case Nil
  then show ?case by simp
next
  case (Cons kv kvs)
  have "fst ` set (AList.update (fst kv) (snd kv) acc) = insert (fst kv) (fst ` set acc)"
    by (simp add: dom_update)
  with Cons.IH [of "AList.update (fst kv) (snd kv) acc"] show ?case
    by (simp add: case_prod_beta)
qed

lemma dict_of_pairs_keys: "fst ` set (dict_of_pairs kvs) = fst ` set kvs"
  by (simp add: dict_of_pairs_def dict_keys_foldl)

lemma dict_of_pairs_snoc:
  "dict_of_pairs (kvs @ [(k, v)]) = AList.update k v (dict_of_pairs kvs)"
  by (simp add: dict_of_pairs_def)

lemma dict_of_pairs_lookup: "map_of (dict_of_pairs kvs) = map_of (rev kvs)"
proof (induction kvs rule: rev_induct)
  case Nil
  then show ?case by (simp add: dict_of_pairs_def)
next
  case (snoc kv kvs)
  obtain k v where kv: "kv = (k, v)" by (cases kv)
  show ?case
    unfolding kv dict_of_pairs_snoc by (simp add: update_conv' snoc.IH)
qed

text \<open>A key keeps the place of its first member.\<close>

lemma keys_update:
  "map fst (AList.update k v al) = (if k \<in> fst ` set al then map fst al else map fst al @ [k])"
  by (induction al) auto

lemma dict_of_pairs_order:
  "map fst (dict_of_pairs kvs) = rev (remdups (rev (map fst kvs)))"
proof (induction kvs rule: rev_induct)
  case Nil
  then show ?case by (simp add: dict_of_pairs_def)
next
  case (snoc kv kvs)
  obtain k v where kv: "kv = (k, v)" by (cases kv)
  show ?case
    unfolding kv dict_of_pairs_snoc keys_update
    using snoc.IH by (simp add: dict_of_pairs_keys)
qed

lemma int_keys_fails:
  assumes "\<exists>k \<in> fst ` set d. \<exists>x. int_of_str lb k = Inl x"
  shows "\<exists>k \<in> fst ` set d. \<exists>x. int_of_str lb k = Inl x \<and> int_keys lb d acc = Inl x"
  using assms
proof (induction d arbitrary: acc)
  case Nil
  then show ?case by simp
next
  case (Cons kv d)
  obtain k v where kv: "kv = (k, v)" by (cases kv)
  show ?case
  proof (cases "int_of_str lb k")
    case (Inl x)
    then show ?thesis by (auto simp: kv)
  next
    case (Inr i)
    with Cons.prems kv have "\<exists>k \<in> fst ` set d. \<exists>x. int_of_str lb k = Inl x" by auto
    from Cons.IH [OF this, of "AList.update i v acc"] show ?thesis
      by (auto simp: kv Inr)
  qed
qed

lemma int_keys_total:
  assumes "\<forall>k \<in> fst ` set d. \<exists>i. int_of_str lb k = Inr i"
  shows "\<exists>labels. int_keys lb d acc = Inr labels"
  using assms
proof (induction d arbitrary: acc)
  case Nil
  then show ?case by simp
next
  case (Cons kv d)
  obtain k v where kv: "kv = (k, v)" by (cases kv)
  from Cons.prems kv obtain i where i: "int_of_str lb k = Inr i" by auto
  from Cons.prems have "\<forall>k \<in> fst ` set d. \<exists>i. int_of_str lb k = Inr i" by auto
  from Cons.IH [OF this, of "AList.update i v acc"] show ?case
    by (simp add: kv i)
qed

lemma int_keys_succeeds:
  assumes "int_keys lb d acc = Inr labels" and "distinct (map fst acc)"
  shows "distinct (map fst labels)
     \<and> (\<forall>k \<in> fst ` set d. \<exists>i. int_of_str lb k = Inr i)
     \<and> map_of labels = map_of (rev (map (\<lambda>(k, v). (projr (int_of_str lb k), v)) d) @ acc)"
  using assms
proof (induction d arbitrary: acc)
  case Nil
  then show ?case by simp
next
  case (Cons kv d)
  obtain k v where kv: "kv = (k, v)" by (cases kv)
  from Cons.prems(1) obtain i where i: "int_of_str lb k = Inr i"
    and rest: "int_keys lb d (AList.update i v acc) = Inr labels"
    by (auto simp: kv split: sum.splits)
  have "distinct (map fst (AList.update i v acc))"
    using Cons.prems(2) by (simp add: distinct_update)
  from Cons.IH [OF rest this] show ?case
    by (auto simp: kv i update_conv' map_add_def fun_eq_iff split: option.splits)
qed

text \<open>
  C7, as the code has it. \<open>load_labels\<close> raises again whatever opening the file raises,
  \<^verbatim>\<open>FileNotFoundError\<close> for a missing file; the \<^verbatim>\<open>ValueError\<close> of the decoder for a
  file that is no text; \<^verbatim>\<open>JSONDecodeError\<close> for text that is not JSON;
  \<^verbatim>\<open>AttributeError\<close> for JSON that is not an object; and, for an object with a key
  that \<^verbatim>\<open>int\<close> refuses, the exception of \<^verbatim>\<open>int\<close>, a \<^verbatim>\<open>ValueError\<close>. For every
  object whose keys \<^verbatim>\<open>int\<close> accepts it returns a table, also when two members denote
  the same index: the table has distinct integer keys, and looking an index up gives the
  value of the last key denoting it in the dict that \<^verbatim>\<open>json.load\<close> built, which holds
  each key once, at the place of its first member with the value of its last. The
  indices may have gaps. It returns a table in no other case.
\<close>

theorem load_labels_outcomes:
  "(open_file (json_files env) p = Inl e \<longrightarrow> load_labels lb env p = Inl e)
   \<and> (CHR 0x00 \<notin> set p \<and> json_files env p = NoEntry
        \<longrightarrow> load_labels lb env p = Inl (FileNotFoundError (errno2 p)))
   \<and> (open_file (json_files env) p = Inr (NotText msg)
        \<longrightarrow> load_labels lb env p = Inl (ValueError msg))
   \<and> (open_file (json_files env) p = Inr (NotJSON msg)
        \<longrightarrow> load_labels lb env p = Inl (JSONDecodeError msg))
   \<and> (open_file (json_files env) p = Inr (JSON (JOther t))
        \<longrightarrow> load_labels lb env p
            = Inl (AttributeError (repr t @ '' object has no attribute '' @ repr ''items'')))
   \<and> (open_file (json_files env) p = Inr (JSON (JObject kvs))
          \<and> (\<exists>k \<in> fst ` set kvs. \<exists>x. int_of_str lb k = Inl x)
        \<longrightarrow> (\<exists>k \<in> fst ` set kvs. \<exists>x. int_of_str lb k = Inl x \<and> load_labels lb env p = Inl x
                \<and> (int_contract lb \<longrightarrow> (\<exists>m. x = ValueError m))))
   \<and> (open_file (json_files env) p = Inr (JSON (JObject kvs))
          \<and> (\<forall>k \<in> fst ` set kvs. \<exists>i. int_of_str lb k = Inr i)
        \<longrightarrow> (\<exists>labels. load_labels lb env p = Inr labels
                \<and> distinct (map fst labels)
                \<and> map_of labels
                    = map_of (rev (map (\<lambda>(k, v). (projr (int_of_str lb k), v)) (dict_of_pairs kvs)))
                \<and> map_of (dict_of_pairs kvs) = map_of (rev kvs)
                \<and> map fst (dict_of_pairs kvs) = rev (remdups (rev (map fst kvs)))))
   \<and> (load_labels lb env p = Inr labels
        \<longrightarrow> (\<exists>kvs. open_file (json_files env) p = Inr (JSON (JObject kvs))
                \<and> (\<forall>k \<in> fst ` set kvs. \<exists>i. int_of_str lb k = Inr i)))"
proof (intro conjI impI)
  assume "open_file (json_files env) p = Inl e"
  then show "load_labels lb env p = Inl e" by (simp add: load_labels_def)
next
  assume "CHR 0x00 \<notin> set p \<and> json_files env p = NoEntry"
  then show "load_labels lb env p = Inl (FileNotFoundError (errno2 p))"
    by (simp add: load_labels_def open_file_def)
next
  assume "open_file (json_files env) p = Inr (NotText msg)"
  then show "load_labels lb env p = Inl (ValueError msg)" by (simp add: load_labels_def)
next
  assume "open_file (json_files env) p = Inr (NotJSON msg)"
  then show "load_labels lb env p = Inl (JSONDecodeError msg)" by (simp add: load_labels_def)
next
  assume "open_file (json_files env) p = Inr (JSON (JOther t))"
  then show "load_labels lb env p
            = Inl (AttributeError (repr t @ '' object has no attribute '' @ repr ''items''))"
    by (simp add: load_labels_def)
next
  assume a: "open_file (json_files env) p = Inr (JSON (JObject kvs))
          \<and> (\<exists>k \<in> fst ` set kvs. \<exists>x. int_of_str lb k = Inl x)"
  then have "\<exists>k \<in> fst ` set (dict_of_pairs kvs). \<exists>x. int_of_str lb k = Inl x"
    by (simp add: dict_of_pairs_keys)
  from int_keys_fails [OF this, of "[]"] obtain k x where
    "k \<in> fst ` set kvs" "int_of_str lb k = Inl x" "int_keys lb (dict_of_pairs kvs) [] = Inl x"
    by (auto simp: dict_of_pairs_keys)
  moreover from this have "int_contract lb \<longrightarrow> (\<exists>m. x = ValueError m)"
    unfolding int_contract_def by blast
  ultimately show "\<exists>k \<in> fst ` set kvs. \<exists>x. int_of_str lb k = Inl x \<and> load_labels lb env p = Inl x
                \<and> (int_contract lb \<longrightarrow> (\<exists>m. x = ValueError m))"
    using a by (auto simp: load_labels_def)
next
  assume a: "open_file (json_files env) p = Inr (JSON (JObject kvs))
          \<and> (\<forall>k \<in> fst ` set kvs. \<exists>i. int_of_str lb k = Inr i)"
  then have "\<forall>k \<in> fst ` set (dict_of_pairs kvs). \<exists>i. int_of_str lb k = Inr i"
    by (simp add: dict_of_pairs_keys)
  from int_keys_total [OF this, of "[]"] obtain labels where
    ik: "int_keys lb (dict_of_pairs kvs) [] = Inr labels" by blast
  from int_keys_succeeds [OF ik] a ik
  show "\<exists>labels. load_labels lb env p = Inr labels
                \<and> distinct (map fst labels)
                \<and> map_of labels
                    = map_of (rev (map (\<lambda>(k, v). (projr (int_of_str lb k), v)) (dict_of_pairs kvs)))
                \<and> map_of (dict_of_pairs kvs) = map_of (rev kvs)
                \<and> map fst (dict_of_pairs kvs) = rev (remdups (rev (map fst kvs)))"
    by (simp add: load_labels_def dict_of_pairs_lookup dict_of_pairs_order)
next
  assume ok: "load_labels lb env p = Inr labels"
  then obtain kvs' where f: "open_file (json_files env) p = Inr (JSON (JObject kvs'))"
    and ik: "int_keys lb (dict_of_pairs kvs') [] = Inr labels"
    by (auto simp: load_labels_def split: sum.splits json_file.splits json.splits)
  from int_keys_succeeds [OF ik] f
  show "\<exists>kvs. open_file (json_files env) p = Inr (JSON (JObject kvs))
                \<and> (\<forall>k \<in> fst ` set kvs. \<exists>i. int_of_str lb k = Inr i)"
    by (simp add: dict_of_pairs_keys)
qed

lemma py_int_keys:
  "py_int ''0'' = Inr 0" "py_int ''1'' = Inr 1" "py_int ''2'' = Inr 2"
  "py_int ''01'' = Inr 1"
  "py_int ''one'' = Inl (ValueError (''invalid literal for int() with base 10: '' @ repr ''one''))"
  by (simp_all add: py_int_def is_space_def is_digit_def digits_value_def repr_def Let_def)

lemma example_int [simp]: "int_of_str example_lib = py_int"
  by (simp add: example_lib_def)

lemma value_errors:
  "(if A then Inl (ValueError x) else if B then Inl (ValueError y)
    else if C then Inl (ValueError z) else Inr v) = Inl e \<Longrightarrow> \<exists>m. e = ValueError m"
  by (auto split: if_splits)

lemma py_int_error: "py_int s = Inl e \<Longrightarrow> \<exists>m. e = ValueError m"
  unfolding py_int_def Let_def by (rule value_errors)

lemma py_int_contract: "int_contract example_lib"
  unfolding int_contract_def using py_int_error by simp

lemma example_json_files:
  "open_file (json_files (example_env kvs b)) ''labels.json'' = Inr (JSON (JObject kvs))"
  "open_file (json_files (example_env kvs b)) ''broken.json''
     = Inr (NotJSON ''Expecting value: line 1 column 1 (char 0)'')"
  "open_file (json_files (example_env kvs b)) ''list.json'' = Inr (JSON (JOther ''list''))"
  "json_files (example_env kvs b) ''absent.json'' = NoEntry"
  "open_file (json_files (example_env kvs b)) ''absent.json''
     = Inl (FileNotFoundError (errno2 ''absent.json''))"
  "open_file (json_files (example_env kvs b)) ''binary.json'' = Inr (NotText not_utf8)"
  by (simp_all add: open_file_def example_env_def)

lemma int_keys_species:
  "int_keys example_lib (dict_of_pairs species) []
     = Inr [(0, ''echeveria_elegans''), (1, ''haworthia_fasciata''), (2, ''sedum_morganianum'')]"
  by (simp add: species_def dict_of_pairs_def py_int_keys)

lemma int_keys_twice_zero:
  "int_keys example_lib (dict_of_pairs twice_zero) []
     = Inr [(0, ''haworthia_fasciata''), (2, ''sedum_morganianum'')]"
  by (simp add: twice_zero_def dict_of_pairs_def py_int_keys)

lemma int_keys_one_twice:
  "int_keys example_lib (dict_of_pairs one_twice) []
     = Inr [(0, ''echeveria_elegans''), (1, ''sedum_morganianum'')]"
  by (simp add: one_twice_def dict_of_pairs_def py_int_keys)

lemma load_example_labels:
  "load_labels example_lib (example_env kvs b) ''labels.json''
     = int_keys example_lib (dict_of_pairs kvs) []"
  by (simp add: load_labels_def example_json_files)

theorem load_labels_outcomes_witness:
  "open_file (json_files (example_env species [])) ''absent.json''
     = Inl (FileNotFoundError (errno2 ''absent.json''))
   \<and> load_labels example_lib (example_env species []) ''absent.json''
     = Inl (FileNotFoundError (errno2 ''absent.json''))
   \<and> load_labels example_lib (example_env species []) ''binary.json''
       = Inl (ValueError not_utf8)
   \<and> load_labels example_lib (example_env species []) ''broken.json''
       = Inl (JSONDecodeError ''Expecting value: line 1 column 1 (char 0)'')
   \<and> load_labels example_lib (example_env species []) ''list.json''
       = Inl (AttributeError (repr ''list'' @ '' object has no attribute '' @ repr ''items''))
   \<and> int_contract example_lib
   \<and> (\<exists>m. load_labels example_lib (example_env [(''0'', ''aloe_vera''), (''one'', ''agave'')] [])
            ''labels.json'' = Inl (ValueError m))
   \<and> (\<exists>labels. load_labels example_lib (example_env one_twice []) ''labels.json'' = Inr labels
         \<and> distinct (map fst labels)
         \<and> map_of labels
             = map_of (rev (map (\<lambda>(k, v). (projr (int_of_str example_lib k), v))
                 (dict_of_pairs one_twice))))
   \<and> load_labels example_lib (example_env species []) ''labels.json''
       = Inr [(0, ''echeveria_elegans''), (1, ''haworthia_fasciata''), (2, ''sedum_morganianum'')]
   \<and> (\<exists>kvs. open_file (json_files (example_env species [])) ''labels.json''
                = Inr (JSON (JObject kvs))
         \<and> (\<forall>k \<in> fst ` set kvs. \<exists>i. int_of_str example_lib k = Inr i))"
proof -
  let ?E = "example_env species []"
  let ?A = "[(''0'', ''aloe_vera''), (''one'', ''agave'')]"
  let ?T = "[(0 :: int, ''echeveria_elegans''), (1, ''haworthia_fasciata''), (2, ''sedum_morganianum'')]"
  note th = load_labels_outcomes [where lb = example_lib]
  note f = example_json_files
  have c1: "load_labels example_lib ?E ''absent.json''
     = Inl (FileNotFoundError (errno2 ''absent.json''))"
    using th [where env = ?E and p = "''absent.json''", THEN conjunct1] f(5) by blast
  have n: "CHR 0x00 \<notin> set ''absent.json''" by simp
  have c1': "load_labels example_lib ?E ''absent.json''
     = Inl (FileNotFoundError (errno2 ''absent.json''))"
    using th [where env = ?E and p = "''absent.json''", THEN conjunct2, THEN conjunct1]
      n f(4) [of species "[]"] by blast
  have c0: "load_labels example_lib ?E ''binary.json'' = Inl (ValueError not_utf8)"
    using th [where env = ?E and p = "''binary.json''",
        THEN conjunct2, THEN conjunct2, THEN conjunct1] f(6) by blast
  have c2: "load_labels example_lib ?E ''broken.json''
       = Inl (JSONDecodeError ''Expecting value: line 1 column 1 (char 0)'')"
    using th [where env = ?E and p = "''broken.json''",
        THEN conjunct2, THEN conjunct2, THEN conjunct2, THEN conjunct1] f(2) by blast
  have c3: "load_labels example_lib ?E ''list.json''
       = Inl (AttributeError (repr ''list'' @ '' object has no attribute '' @ repr ''items''))"
    using th [where env = ?E and p = "''list.json''",
        THEN conjunct2, THEN conjunct2, THEN conjunct2, THEN conjunct2, THEN conjunct1] f(3)
    by blast
  have bad: "\<exists>k \<in> fst ` set ?A. \<exists>x. int_of_str example_lib k = Inl x"
    by (simp add: py_int_keys)
  have c4: "\<exists>m. load_labels example_lib (example_env ?A []) ''labels.json'' = Inl (ValueError m)"
    using th [where env = "example_env ?A []" and p = "''labels.json''" and kvs = ?A,
        THEN conjunct2, THEN conjunct2, THEN conjunct2, THEN conjunct2, THEN conjunct2,
        THEN conjunct1]
      f(1) [of ?A "[]"] bad py_int_contract
    by blast
  have good: "\<forall>k \<in> fst ` set one_twice. \<exists>i. int_of_str example_lib k = Inr i"
    by (simp add: one_twice_def py_int_keys)
  have c5: "\<exists>labels. load_labels example_lib (example_env one_twice []) ''labels.json'' = Inr labels
         \<and> distinct (map fst labels)
         \<and> map_of labels
             = map_of (rev (map (\<lambda>(k, v). (projr (int_of_str example_lib k), v))
                 (dict_of_pairs one_twice)))"
    using th [where env = "example_env one_twice []" and p = "''labels.json''"
        and kvs = one_twice,
        THEN conjunct2, THEN conjunct2, THEN conjunct2, THEN conjunct2, THEN conjunct2,
        THEN conjunct2, THEN conjunct1]
      f(1) [of one_twice "[]"] good
    by blast
  have ok: "load_labels example_lib ?E ''labels.json'' = Inr ?T"
    by (simp add: load_example_labels int_keys_species)
  have c6: "\<exists>kvs. open_file (json_files ?E) ''labels.json'' = Inr (JSON (JObject kvs))
         \<and> (\<forall>k \<in> fst ` set kvs. \<exists>i. int_of_str example_lib k = Inr i)"
    using th [where env = ?E and p = "''labels.json''" and labels = ?T,
        THEN conjunct2, THEN conjunct2, THEN conjunct2, THEN conjunct2, THEN conjunct2,
        THEN conjunct2, THEN conjunct2] ok
    by blast
  from f(5) [of species "[]"] c1 c0 c2 c3 py_int_contract c4 c5 ok c6 show ?thesis
    by blast
qed

text \<open>
  A label file that gives index 0 twice and leaves index 1 out is loaded without an
  error: the later member wins, and the table is not dense. So is a file of three
  members whose keys \<open>1\<close> and \<open>01\<close> denote the same index: the table has two entries.
\<close>

theorem load_labels_duplicate_counterexample:
  "load_labels example_lib (example_env twice_zero [0, 0]) ''labels.json''
     = Inr [(0, ''haworthia_fasciata''), (2, ''sedum_morganianum'')]
   \<and> load_labels example_lib (example_env one_twice [0, 0]) ''labels.json''
     = Inr [(0, ''echeveria_elegans''), (1, ''sedum_morganianum'')]"
  by (simp add: load_example_labels int_keys_twice_zero int_keys_one_twice)

section \<open>Shape and value of the preprocessed tensor\<close>

lemma Image_open_file:
  "open_file (image_files env) p = Inr (Encoded im) \<Longrightarrow> Image_open env p = Inr im"
  by (simp add: Image_open_def)

lemma load_image_decodable:
  assumes "open_file (image_files env) p = Inr (Encoded im)" and "data im = Inr px"
  shows "load_image lb env p
     = Inr (if mode im = RGB then im else im\<lparr>mode := RGB, data := Inr (to_rgb lb (mode im) px)\<rparr>)"
  using assms
  by (simp add: load_image_def Image_open_file ensure_RGB_def convert_RGB_def)

lemma Normalize_planes:
  assumes "length mean = n"
  shows "Normalize mean std (map f [0..<n])
     = Inr (map (\<lambda>c. map (map (\<lambda>v. (v - mean ! c) / std ! c)) (f c)) [0..<n])"
proof -
  have "zip [0..<n] (map f [0..<n]) = map (\<lambda>c. (c, f c)) [0..<n]"
    by (simp add: zip_map2 zip_same_conv_map)
  then show ?thesis
    using assms by (simp add: Normalize_def)
qed

text \<open>The pipeline of \<open>__init__\<close> on an RGB image whose pixels decode.\<close>

lemma pipeline_value:
  assumes "mode im = RGB" and "data im = Inr px" and "length mean = 3"
  shows "(case Resize lb (sz, sz) im of
            Inl e \<Rightarrow> Inl e
          | Inr im1 \<Rightarrow> (case ToTensor im1 of Inl e \<Rightarrow> Inl e | Inr t \<Rightarrow> Normalize mean std t))
     = Inr (map (\<lambda>c. map (\<lambda>y. map (\<lambda>x.
              (real (resample lb (size im) px (sz, sz) x y c) / 255 - mean ! c) / std ! c)
            [0..<sz]) [0..<sz]) [0..<3])"
proof -
  let ?im1 = "im\<lparr>size := (sz, sz), data := Inr (resample lb (size im) px (sz, sz))\<rparr>"
  let ?f = "\<lambda>c. map (\<lambda>y. map (\<lambda>x. real (resample lb (size im) px (sz, sz) x y c) / 255) [0..<sz])
                 [0..<sz]"
  have r: "Resize lb (sz, sz) im = Inr ?im1"
    using assms by (simp add: Resize_def)
  have t: "ToTensor ?im1 = Inr (map ?f [0..<3])"
    using assms by (simp add: ToTensor_def del: upt_rec_numeral)
  show ?thesis
    by (simp add: r t Normalize_planes [OF assms(3)] comp_def del: upt_rec_numeral)
qed

lemma transform_value:
  assumes "mode im = RGB" and "data im = Inr px"
  shows "transform (ImagePreprocessor_init lb sz) im
     = Inr (map (\<lambda>c. map (\<lambda>y. map (\<lambda>x.
              (real (resample lb (size im) px (sz, sz) x y c) / 255
                 - [485 / 1000, 456 / 1000, 406 / 1000] ! c)
               / [229 / 1000, 224 / 1000, 225 / 1000] ! c)
            [0..<sz]) [0..<sz]) [0..<3])"
proof -
  have l: "length [485 / 1000, 456 / 1000, 406 / 1000 :: real] = 3" by simp
  show ?thesis
    by (simp only: ImagePreprocessor_init_def ImagePreprocessor.select_convs
        pipeline_value [OF assms l])
qed

lemma preprocess_value:
  assumes "open_file (image_files env) p = Inr (Encoded im)" and "data im = Inr px"
  shows "preprocess_from_path lb (ImagePreprocessor_init lb sz) env p
     = Inr [map (\<lambda>c. map (\<lambda>y. map (\<lambda>x.
              (real (resample lb (size im)
                       (if mode im = RGB then px else to_rgb lb (mode im) px) (sz, sz) x y c) / 255
                 - [485 / 1000, 456 / 1000, 406 / 1000] ! c)
               / [229 / 1000, 224 / 1000, 225 / 1000] ! c)
            [0..<sz]) [0..<sz]) [0..<3]]"
proof (cases "mode im = RGB")
  case True
  then show ?thesis
    using assms transform_value [OF True assms(2), of lb sz]
    by (simp add: preprocess_from_path_def load_image_decodable [OF assms] preprocess_def
        unsqueeze0_def del: upt_rec_numeral)
next
  case False
  let ?im' = "im\<lparr>mode := RGB, data := Inr (to_rgb lb (mode im) px)\<rparr>"
  have "mode ?im' = RGB" "data ?im' = Inr (to_rgb lb (mode im) px)" by simp_all
  from transform_value [OF this, of lb sz] show ?thesis
    using False
    by (simp add: preprocess_from_path_def load_image_decodable [OF assms] preprocess_def
        unsqueeze0_def del: upt_rec_numeral)
qed

lemma preprocess_single:
  assumes "open_file (image_files env) p = Inr (Encoded im)" and "data im = Inr px"
  shows "\<exists>t. preprocess_from_path lb (ImagePreprocessor_init lb IMG_SIZE) env p = Inr [t]"
  using preprocess_value [OF assms] by blast

text \<open>
  C9. For every image file that opens and decodes, whatever its mode and size, the
  preprocessor that startup builds returns a tensor of shape 1 by 3 by 224 by 224.
\<close>

theorem preprocess_shape:
  assumes "open_file (image_files env) p = Inr (Encoded im)" and "data im = Inr px"
  shows "\<exists>t. preprocess_from_path lb (ImagePreprocessor_init lb IMG_SIZE) env p = Inr t
           \<and> has_shape 1 3 224 224 t"
  unfolding preprocess_value [OF assms]
  by (simp add: has_shape_def IMG_SIZE_def del: upt_rec_numeral)

lemma example_files:
  "image_files (example_env kvs b) ''absent.jpg'' = NoEntry"
  "open_file (image_files (example_env kvs b)) ''notes.txt'' = Inr Unidentified"
  "open_file (image_files (example_env kvs b)) ''cut.jpg'' = Inr (Encoded truncated_image)"
  "open_file (image_files (example_env kvs b)) ''rosette.jpg'' = Inr (Encoded (example_image RGB))"
  "open_file (image_files (example_env kvs b)) ''grey.png'' = Inr (Encoded (example_image L))"
  "image_files (example_env kvs b) ''notes.txt/rosette.jpg'' = NotADirectory"
  "image_files (example_env kvs b) ''uploads'' = IsADirectory"
  by (simp_all add: open_file_def example_env_def)

lemma example_pixels:
  "data (example_image m) = Inr (\<lambda>x y c. (x + y + c) mod 256)"
  "mode (example_image m) = m" "size (example_image m) = (640, 480)"
  by (simp_all add: example_image_def)

theorem preprocess_shape_witness:
  "open_file (image_files (example_env species [2, 5, 1 / 10])) ''grey.png''
     = Inr (Encoded (example_image L))
   \<and> data (example_image L) = Inr (\<lambda>x y c. (x + y + c) mod 256)
   \<and> (\<exists>t. preprocess_from_path example_lib (ImagePreprocessor_init example_lib IMG_SIZE)
             (example_env species [2, 5, 1 / 10]) ''grey.png'' = Inr t
           \<and> has_shape 1 3 224 224 t)"
  using preprocess_shape [OF example_files(5) [of species "[2, 5, 1 / 10]"] example_pixels(1),
      where lb = example_lib]
    example_files(5) [of species "[2, 5, 1 / 10]"] example_pixels(1) [of L]
  by blast

text \<open>
  C8. The preprocessed tensor of a file that opens and decodes is given by the file's
  mode, size and pixels alone, through the fixed pipeline: the colour conversion when
  the mode is not RGB, the resampling to 224 by 224, the division by 255 and the
  normalisation with the constant means and deviations. No state of the service and
  no random choice enters, so the same file gives the same tensor, and two file
  systems that agree at the path give the same result. The conversion step of
  \<open>load_image\<close> leaves an RGB image as it is, converts every other image to RGB with
  the same size, and applied to its own result changes nothing.
\<close>

theorem preprocessing_deterministic:
  "(open_file (image_files env) p = Inr (Encoded im) \<and> data im = Inr px
      \<longrightarrow> preprocess_from_path lb (ImagePreprocessor_init lb IMG_SIZE) env p
          = Inr [map (\<lambda>c. map (\<lambda>y. map (\<lambda>x.
                   (real (resample lb (size im)
                            (if mode im = RGB then px else to_rgb lb (mode im) px)
                            (IMG_SIZE, IMG_SIZE) x y c) / 255
                      - [485 / 1000, 456 / 1000, 406 / 1000] ! c)
                    / [229 / 1000, 224 / 1000, 225 / 1000] ! c)
                 [0..<IMG_SIZE]) [0..<IMG_SIZE]) [0..<3]])
   \<and> (open_file (image_files env) p = open_file (image_files env') p
      \<longrightarrow> preprocess_from_path lb pre env p = preprocess_from_path lb pre env' p)
   \<and> (mode im = RGB \<longrightarrow> ensure_RGB lb im = Inr im)
   \<and> (mode im \<noteq> RGB \<and> data im = Inr px
      \<longrightarrow> ensure_RGB lb im = Inr (im\<lparr>mode := RGB, data := Inr (to_rgb lb (mode im) px)\<rparr>))
   \<and> (ensure_RGB lb im = Inr im'
      \<longrightarrow> mode im' = RGB \<and> size im' = size im \<and> ensure_RGB lb im' = Inr im')"
proof (intro conjI impI)
  assume "open_file (image_files env) p = Inr (Encoded im) \<and> data im = Inr px"
  then show "preprocess_from_path lb (ImagePreprocessor_init lb IMG_SIZE) env p
          = Inr [map (\<lambda>c. map (\<lambda>y. map (\<lambda>x.
                   (real (resample lb (size im)
                            (if mode im = RGB then px else to_rgb lb (mode im) px)
                            (IMG_SIZE, IMG_SIZE) x y c) / 255
                      - [485 / 1000, 456 / 1000, 406 / 1000] ! c)
                    / [229 / 1000, 224 / 1000, 225 / 1000] ! c)
                 [0..<IMG_SIZE]) [0..<IMG_SIZE]) [0..<3]]"
    using preprocess_value [of env p im px lb IMG_SIZE] by blast
next
  assume "open_file (image_files env) p = open_file (image_files env') p"
  then show "preprocess_from_path lb pre env p = preprocess_from_path lb pre env' p"
    by (simp add: preprocess_from_path_def load_image_def Image_open_def)
next
  assume "ensure_RGB lb im = Inr im'"
  then show "mode im' = RGB" "size im' = size im" "ensure_RGB lb im' = Inr im'"
    by (auto simp: ensure_RGB_def convert_RGB_def split: if_splits sum.splits)
qed (simp_all add: ensure_RGB_def convert_RGB_def)

theorem preprocessing_deterministic_witness:
  "open_file (image_files (example_env species [2, 5, 1 / 10])) ''grey.png''
     = Inr (Encoded (example_image L))
   \<and> data (example_image L) = Inr (\<lambda>x y c. (x + y + c) mod 256)
   \<and> preprocess_from_path example_lib (ImagePreprocessor_init example_lib IMG_SIZE)
        (example_env species [2, 5, 1 / 10]) ''grey.png''
     = Inr [map (\<lambda>c. map (\<lambda>y. map (\<lambda>x.
              (real (resample example_lib (size (example_image L))
                       (if mode (example_image L) = RGB then (\<lambda>x y c. (x + y + c) mod 256)
                        else to_rgb example_lib (mode (example_image L))
                               (\<lambda>x y c. (x + y + c) mod 256))
                       (IMG_SIZE, IMG_SIZE) x y c) / 255
                 - [485 / 1000, 456 / 1000, 406 / 1000] ! c)
               / [229 / 1000, 224 / 1000, 225 / 1000] ! c)
            [0..<IMG_SIZE]) [0..<IMG_SIZE]) [0..<3]]
   \<and> open_file (image_files (example_env species [2, 5, 1 / 10])) ''grey.png''
     = open_file (image_files (example_env twice_zero [])) ''grey.png''
   \<and> preprocess_from_path example_lib (ImagePreprocessor_init example_lib IMG_SIZE)
        (example_env species [2, 5, 1 / 10]) ''grey.png''
     = preprocess_from_path example_lib (ImagePreprocessor_init example_lib IMG_SIZE)
        (example_env twice_zero []) ''grey.png''
   \<and> mode (example_image RGB) = RGB
   \<and> ensure_RGB example_lib (example_image RGB) = Inr (example_image RGB)
   \<and> mode (example_image L) \<noteq> RGB
   \<and> ensure_RGB example_lib (example_image L)
     = Inr ((example_image L)\<lparr>mode := RGB,
              data := Inr (to_rgb example_lib (mode (example_image L))
                             (\<lambda>x y c. (x + y + c) mod 256))\<rparr>)
   \<and> ensure_RGB example_lib ((example_image L)\<lparr>mode := RGB,
              data := Inr (to_rgb example_lib (mode (example_image L))
                             (\<lambda>x y c. (x + y + c) mod 256))\<rparr>)
     = Inr ((example_image L)\<lparr>mode := RGB,
              data := Inr (to_rgb example_lib (mode (example_image L))
                             (\<lambda>x y c. (x + y + c) mod 256))\<rparr>)"
proof -
  let ?E = "example_env species [2, 5, 1 / 10]"
  let ?px = "\<lambda>x y c :: nat. (x + y + c) mod 256"
  let ?X = "(example_image L)\<lparr>mode := RGB,
              data := Inr (to_rgb example_lib (mode (example_image L)) ?px)\<rparr>"
  let ?pre = "ImagePreprocessor_init example_lib IMG_SIZE"
  note th = preprocessing_deterministic [where lb = example_lib]
  note f = example_files(5) [of species "[2, 5, 1 / 10]"]
  note d = example_pixels(1) [of L]
  have a: "open_file (image_files ?E) ''grey.png''
     = open_file (image_files (example_env twice_zero [])) ''grey.png''"
    by (simp add: example_files)
  have m: "mode (example_image RGB) = RGB" and m': "mode (example_image L) \<noteq> RGB"
    by (simp_all add: example_pixels)
  have c0: "preprocess_from_path example_lib ?pre ?E ''grey.png''
     = Inr [map (\<lambda>c. map (\<lambda>y. map (\<lambda>x.
              (real (resample example_lib (size (example_image L))
                       (if mode (example_image L) = RGB then ?px
                        else to_rgb example_lib (mode (example_image L)) ?px)
                       (IMG_SIZE, IMG_SIZE) x y c) / 255
                 - [485 / 1000, 456 / 1000, 406 / 1000] ! c)
               / [229 / 1000, 224 / 1000, 225 / 1000] ! c)
            [0..<IMG_SIZE]) [0..<IMG_SIZE]) [0..<3]]"
    using th [where env = ?E and p = "''grey.png''" and im = "example_image L" and px = ?px,
        THEN conjunct1] f d by blast
  have c1: "preprocess_from_path example_lib ?pre ?E ''grey.png''
     = preprocess_from_path example_lib ?pre (example_env twice_zero []) ''grey.png''"
    using th [where env = ?E and p = "''grey.png''" and env' = "example_env twice_zero []"
        and pre = ?pre, THEN conjunct2, THEN conjunct1] a by blast
  have c2: "ensure_RGB example_lib (example_image RGB) = Inr (example_image RGB)"
    using th [where im = "example_image RGB", THEN conjunct2, THEN conjunct2, THEN conjunct1] m
    by blast
  have c3: "ensure_RGB example_lib (example_image L) = Inr ?X"
    using th [where im = "example_image L" and px = ?px,
        THEN conjunct2, THEN conjunct2, THEN conjunct2, THEN conjunct1] m' d
    by blast
  have c4: "ensure_RGB example_lib ?X = Inr ?X"
    using th [where im = "example_image L" and im' = ?X,
        THEN conjunct2, THEN conjunct2, THEN conjunct2, THEN conjunct2] c3
    by blast
  from f d c0 a c1 m c2 m' c3 c4 show ?thesis by blast
qed

section \<open>Startup\<close>

lemma load_model_shapes:
  assumes "load_model env path n = Inr m"
  shows "length (weight m) = n \<and> length (bias m) = n
         \<and> (\<exists>ck. open_file (checkpoints env) path = Inr ck \<and> model_state_dict ck = Some m)"
  using assms
  by (auto simp: load_model_def load_state_dict_def build_model_def
      split: sum.splits option.splits if_splits)

lemma lifespan_ready:
  assumes "lifespan lb cfg env st0 = (st, None)"
  shows "\<exists>labels m. load_labels lb env (LABELS_PATH cfg) = Inr labels
           \<and> load_model env (MODEL_PATH cfg) (length labels) = Inr m
           \<and> st = st0\<lparr>labels_map := Some labels, model := Some m,
                       preprocessor := Some (ImagePreprocessor_init lb IMG_SIZE)\<rparr>"
  using assms by (auto simp: lifespan_def Let_def split: sum.splits)

lemma length_linear: "length (linear w b x) = min (length w) (length b)"
  by (simp add: linear_def)

lemma forward_single: "forward m [t] = [linear (weight m) (bias m) (features m t)]"
  by (simp add: forward_def)

lemma example_load_model:
  "load_model (example_env kvs b) ''best.pth'' (length b) = Inr (example_state_dict b)"
  by (simp add: load_model_def open_file_def example_env_def example_checkpoint_def
      load_state_dict_def build_model_def example_state_dict_def num_features_def list_all_length)

lemma example_lifespan:
  assumes "int_keys example_lib (dict_of_pairs kvs) [] = Inr labels" and "length b = length labels"
  shows "lifespan example_lib (example_config k) (example_env kvs b) uninitialized
     = (\<lparr>model = Some (example_state_dict b), labels_map = Some labels,
         preprocessor = Some (ImagePreprocessor_init example_lib IMG_SIZE)\<rparr>, None)"
proof -
  have "load_labels example_lib (example_env kvs b) ''labels.json'' = Inr labels"
    using assms(1) by (simp add: load_example_labels)
  moreover have "load_model (example_env kvs b) ''best.pth'' (length labels) = Inr (example_state_dict b)"
    using example_load_model [of kvs b] assms(2) by simp
  ultimately show ?thesis
    by (simp add: lifespan_def example_config_def uninitialized_def)
qed

lemma started_eq:
  assumes "int_keys example_lib (dict_of_pairs kvs) [] = Inr labels" and "length b = length labels"
  shows "started kvs b = \<lparr>model = Some (example_state_dict b), labels_map = Some labels,
         preprocessor = Some (ImagePreprocessor_init example_lib IMG_SIZE)\<rparr>"
  by (simp add: started_def example_lifespan [OF assms])

text \<open>
  C3, as the code has it. When the head of the checkpoint has another number of rows
  than the loaded label table has entries, \<open>load_model\<close> fails with the
  \<^verbatim>\<open>RuntimeError\<close> of \<^verbatim>\<open>load_state_dict\<close>, which compares the shapes before any forward
  pass; startup raises that exception, the model stays unset, and every later
  \<open>predict\<close> is refused. The entries of the table are the distinct indices of the
  label file, not its members.
\<close>

theorem load_model_head_mismatch:
  assumes "load_labels lb env (LABELS_PATH cfg) = Inr labels"
    and "open_file (checkpoints env) (MODEL_PATH cfg) = Inr ck"
    and "model_state_dict ck = Some sd"
    and "length (weight sd) \<noteq> length labels"
  shows "\<exists>msg. load_model env (MODEL_PATH cfg) (length labels) = Inl (RuntimeError msg)
           \<and> lifespan lb cfg env uninitialized
               = (uninitialized\<lparr>labels_map := Some labels\<rparr>, Some (RuntimeError msg))
           \<and> model (fst (lifespan lb cfg env uninitialized)) = None
           \<and> predict lb env (fst (lifespan lb cfg env uninitialized)) p k
               = Inl (RuntimeError ''Model not loaded. Service not initialized properly.'')"
proof -
  obtain msg where lm: "load_model env (MODEL_PATH cfg) (length labels) = Inl (RuntimeError msg)"
    using assms(2-4) by (simp add: load_model_def load_state_dict_def build_model_def)
  then have ls: "lifespan lb cfg env uninitialized
               = (uninitialized\<lparr>labels_map := Some labels\<rparr>, Some (RuntimeError msg))"
    using assms(1) by (simp add: lifespan_def)
  have "model (uninitialized\<lparr>labels_map := Some labels\<rparr>) = None"
    by (simp add: uninitialized_def)
  with lm ls show ?thesis
    by (simp add: predict_def)
qed

lemma example_checkpoint_file:
  "open_file (checkpoints (example_env kvs b)) ''best.pth'' = Inr (example_checkpoint b)"
  by (simp add: open_file_def example_env_def)

theorem load_model_head_mismatch_witness:
  "load_labels example_lib (example_env species [2, 5]) (LABELS_PATH (example_config 3))
     = Inr [(0, ''echeveria_elegans''), (1, ''haworthia_fasciata''), (2, ''sedum_morganianum'')]
   \<and> open_file (checkpoints (example_env species [2, 5])) (MODEL_PATH (example_config 3))
     = Inr (example_checkpoint [2, 5])
   \<and> model_state_dict (example_checkpoint [2, 5]) = Some (example_state_dict [2, 5])
   \<and> length (weight (example_state_dict [2, 5]))
     \<noteq> length [(0 :: int, ''echeveria_elegans''), (1, ''haworthia_fasciata''), (2, ''sedum_morganianum'')]
   \<and> (\<exists>msg. load_model (example_env species [2, 5]) (MODEL_PATH (example_config 3))
               (length [(0 :: int, ''echeveria_elegans''), (1, ''haworthia_fasciata''),
                        (2, ''sedum_morganianum'')])
             = Inl (RuntimeError msg))
   \<and> model (fst (lifespan example_lib (example_config 3) (example_env species [2, 5]) uninitialized))
     = None
   \<and> predict example_lib (example_env species [2, 5])
       (fst (lifespan example_lib (example_config 3) (example_env species [2, 5]) uninitialized))
       ''rosette.jpg'' 3
     = Inl (RuntimeError ''Model not loaded. Service not initialized properly.'')"
proof -
  let ?E = "example_env species [2, 5]"
  let ?T = "[(0 :: int, ''echeveria_elegans''), (1, ''haworthia_fasciata''), (2, ''sedum_morganianum'')]"
  have h1: "load_labels example_lib ?E (LABELS_PATH (example_config 3)) = Inr ?T"
    by (simp add: example_config_def load_example_labels int_keys_species)
  have h2: "open_file (checkpoints ?E) (MODEL_PATH (example_config 3)) = Inr (example_checkpoint [2, 5])"
    by (simp add: example_checkpoint_file example_config_def)
  have h3: "model_state_dict (example_checkpoint [2, 5]) = Some (example_state_dict [2, 5])"
    by (simp add: example_checkpoint_def)
  have h4: "length (weight (example_state_dict [2, 5])) \<noteq> length ?T"
    by (simp add: example_state_dict_def)
  from load_model_head_mismatch [OF h1 h2 h3 h4, where p = "''rosette.jpg''" and k = 3] h1 h2 h3 h4
  show ?thesis by blast
qed

text \<open>
  A label file of three members and a head of two rows: two of the keys denote the same
  index, the table has two entries, and startup completes. And where the load fails,
  the exception is the \<^verbatim>\<open>RuntimeError\<close> of \<^verbatim>\<open>load_state_dict\<close>.
\<close>

theorem startup_size_counterexample:
  "length one_twice = 3
   \<and> length (weight (example_state_dict [0, 0])) = 2
   \<and> lifespan example_lib (example_config 3) (example_env one_twice [0, 0]) uninitialized
     = (started one_twice [0, 0], None)
   \<and> model (started one_twice [0, 0]) = Some (example_state_dict [0, 0])
   \<and> labels_map (started one_twice [0, 0])
     = Some [(0, ''echeveria_elegans''), (1, ''sedum_morganianum'')]
   \<and> load_model (example_env species [2, 5]) ''best.pth'' 3
     = Inl (RuntimeError
         ''Error(s) in loading state_dict for EfficientNet: size mismatch for classifier.1'')"
proof -
  have "load_model (example_env species [2, 5]) ''best.pth'' 3
     = Inl (RuntimeError
         ''Error(s) in loading state_dict for EfficientNet: size mismatch for classifier.1'')"
    by (simp add: load_model_def example_checkpoint_file example_checkpoint_def
        load_state_dict_def build_model_def example_state_dict_def)
  then show ?thesis
    using example_lifespan [OF int_keys_one_twice, of "[0, 0]" 3]
      started_eq [OF int_keys_one_twice, of "[0, 0]"]
    by (simp add: one_twice_def example_state_dict_def)
qed

section \<open>The service on the concrete inputs\<close>

lemma predict_ready:
  assumes "model st = Some m" and "labels_map st = Some labels" and "preprocessor st = Some pre"
  shows "predict lb env st p k =
     (case predict_try lb env m labels pre p k of
             Inl (FileNotFoundError x) \<Rightarrow> Inl (HTTPException 404 (''Image file not found: '' @ p))
           | Inl e \<Rightarrow> Inl (HTTPException 500 (''Inference error: '' @ str e))
           | Inr ps \<Rightarrow> Inr ps)"
  using assms by (simp add: predict_def)

lemma example_linear:
  "linear (replicate (length b) (replicate 1280 0)) b (replicate 1280 0) = b"
proof -
  have "sum_list (map (\<lambda>(a, v). a * v) (zip (replicate 1280 (0::real)) (replicate 1280 (0::real)))) = 0"
    by (simp add: zip_replicate sum_list_replicate)
  then show ?thesis
    by (simp add: linear_def zip_replicate1 map_idI)
qed

lemma example_forward: "forward (example_state_dict b) [t] = [b]"
  by (simp add: forward_def example_state_dict_def example_linear)

lemma example_predict_try:
  "predict_try example_lib (example_env kvs b) (example_state_dict b) labels
      (ImagePreprocessor_init example_lib IMG_SIZE) ''rosette.jpg'' k
   = rank example_lib labels k [b]"
proof -
  obtain t where "preprocess_from_path example_lib
      (ImagePreprocessor_init example_lib IMG_SIZE) (example_env kvs b) ''rosette.jpg'' = Inr [t]"
    using preprocess_single [OF example_files(4) example_pixels(1)] by blast
  then show ?thesis
    by (simp add: predict_try_def example_forward)
qed

lemma example_predict:
  assumes "int_keys example_lib (dict_of_pairs kvs) [] = Inr labels" and "length b = length labels"
  shows "predict example_lib (example_env kvs b) (started kvs b) ''rosette.jpg'' k =
     (case rank example_lib labels k [b] of
             Inl (FileNotFoundError x) \<Rightarrow> Inl (HTTPException 404 (''Image file not found: '' @ ''rosette.jpg''))
           | Inl e \<Rightarrow> Inl (HTTPException 500 (''Inference error: '' @ str e))
           | Inr ps \<Rightarrow> Inr ps)"
  by (simp add: predict_ready [where m = "example_state_dict b" and labels = labels
        and pre = "ImagePreprocessor_init example_lib IMG_SIZE"]
      started_eq [OF assms] example_predict_try)

lemma example_topk: "topk example_lib = topk_stable"
  by (simp add: example_lib_def)

lemma softmax_zeros2: "softmax [0, 0] = [1 / 2, 1 / 2]"
  by (simp add: softmax_def)

lemma topk_stable_halves: "topk_stable [1 / 2, 1 / 2] 2 = Inr [(1 / 2, 0), (1 / 2, 1)]"
  by (simp add: topk_stable_def)

lemma show_int_1: "show_int 1 = ''1''"
  by code_simp

lemma rank_gap:
  "rank example_lib [(0, ''haworthia_fasciata''), (2, ''sedum_morganianum'')] 3 [[0, 0]]
     = Inl (KeyError ''1'')"
  by (simp add: rank_def softmax_zeros2 example_topk topk_stable_halves show_int_1)

section \<open>Selection and rounding\<close>

lemma sort_key_desc:
  "sorted_wrt (\<lambda>i j. row ! j \<le> row ! i) (sort_key (\<lambda>i. - (row ! i)) (xs :: nat list))"
    for row :: "real list"
proof -
  have "sorted (map (\<lambda>i. - (row ! i)) (sort_key (\<lambda>i. - (row ! i)) xs))"
    by (rule sorted_sort_key)
  then show ?thesis
    by (simp add: sorted_wrt_map)
qed

lemma topk_stable_contract: "topk_contract example_lib"
proof -
  have "case topk_stable row k of
           Inl e \<Rightarrow> (k < 0 \<or> int (length row) < k) \<and> (\<exists>m. e = RuntimeError m)
         | Inr r \<Rightarrow>
             0 \<le> k \<and> k \<le> int (length row) \<and> length r = nat k \<and>
             (\<forall>(v, i) \<in> set r. i < length row \<and> v = row ! i) \<and>
             distinct (map snd r) \<and>
             sorted_wrt (\<lambda>a b. b \<le> a) (map fst r) \<and>
             (\<forall>j < length row. j \<notin> snd ` set r \<longrightarrow> (\<forall>v \<in> fst ` set r. row ! j \<le> v))"
    for row k
  proof (cases "k < 0 \<or> int (length row) < k")
    case True
    then show ?thesis by (simp add: topk_stable_def)
  next
    case False
    define s where "s = sort_key (\<lambda>i. - (row ! i)) [0..<length row]"
    define r where "r = take (nat k) (map (\<lambda>i. (row ! i, i)) s)"
    have tk: "topk_stable row k = Inr r"
      using False by (simp add: topk_stable_def r_def s_def)
    have set_s: "set s = {0..<length row}" and len_s: "length s = length row"
      and dist_s: "distinct s"
      by (simp_all add: s_def)
    have desc: "sorted_wrt (\<lambda>i j. row ! j \<le> row ! i) s"
      unfolding s_def by (rule sort_key_desc)
    have snd_r: "map snd r = take (nat k) s" and fst_r: "map fst r = take (nat k) (map (\<lambda>i. row ! i) s)"
      by (simp_all add: r_def take_map comp_def)
    have len: "length r = nat k"
      using False by (simp add: r_def len_s) linarith
    have mem: "\<forall>(v, i) \<in> set r. i < length row \<and> v = row ! i"
    proof -
      have "set r \<subseteq> (\<lambda>i. (row ! i, i)) ` set s"
        unfolding r_def using set_take_subset [of "nat k" "map (\<lambda>i. (row ! i, i)) s"] by simp
      then show ?thesis using set_s by auto
    qed
    have dist: "distinct (map snd r)"
      by (simp add: snd_r dist_s)
    have srt: "sorted_wrt (\<lambda>a b. b \<le> a) (map fst r)"
    proof -
      have "sorted_wrt (\<lambda>a b. b \<le> a) (map (\<lambda>i. row ! i) s)"
        using desc by (simp add: sorted_wrt_map)
      then show ?thesis
        unfolding fst_r by (rule sorted_wrt_take)
    qed
    have mx: "\<forall>j < length row. j \<notin> snd ` set r \<longrightarrow> (\<forall>v \<in> fst ` set r. row ! j \<le> v)"
    proof (intro allI impI ballI)
      fix j v
      assume j: "j < length row" and nj: "j \<notin> snd ` set r" and v: "v \<in> fst ` set r"
      have sr: "snd ` set r = set (take (nat k) s)"
        using arg_cong [OF snd_r, of set] by simp
      have "j \<in> set s" using j set_s by simp
      then have "j \<in> set (take (nat k) s) \<union> set (drop (nat k) s)"
        using set_append [of "take (nat k) s" "drop (nat k) s"] by (simp del: set_append)
      then have jd: "j \<in> set (drop (nat k) s)"
        using nj sr by blast
      from v obtain q where q: "q \<in> set r" and vq: "v = fst q" by auto
      define i where "i = snd q"
      have "(v, i) \<in> set r" using q vq i_def by simp
      with mem have vi: "v = row ! i" by auto
      have "i \<in> snd ` set r" using q i_def by auto
      then have i: "i \<in> set (take (nat k) s)" using sr by simp
      have "sorted_wrt (\<lambda>i j. row ! j \<le> row ! i) (take (nat k) s @ drop (nat k) s)"
        using desc by simp
      then have "row ! j \<le> row ! i"
        using i jd unfolding sorted_wrt_append by blast
      then show "row ! j \<le> v" by (simp add: vi)
    qed
    show ?thesis
      using False len mem dist srt mx by (simp add: tk)
  qed
  then show ?thesis
    unfolding topk_contract_def example_lib_def by simp
qed

lemma py_round_mono:
  assumes "x \<le> y"
  shows "py_round x n \<le> py_round y n"
proof -
  define rhe :: "real \<Rightarrow> int" where
    "rhe z = (if z - of_int \<lfloor>z\<rfloor> < 1 / 2 then \<lfloor>z\<rfloor> else if 1 / 2 < z - of_int \<lfloor>z\<rfloor> then \<lfloor>z\<rfloor> + 1
              else if even \<lfloor>z\<rfloor> then \<lfloor>z\<rfloor> else \<lfloor>z\<rfloor> + 1)" for z
  have pr: "py_round z n = of_int (rhe (z * 10 ^ n)) / 10 ^ n" for z
    by (simp add: py_round_def rhe_def Let_def)
  have bounds: "\<lfloor>z\<rfloor> \<le> rhe z \<and> rhe z \<le> \<lfloor>z\<rfloor> + 1" for z
    by (simp add: rhe_def)
  have mono: "rhe a \<le> rhe b" if ab: "a \<le> b" for a b
  proof (cases "\<lfloor>a\<rfloor> = \<lfloor>b\<rfloor>")
    case True
    then have "a - of_int \<lfloor>a\<rfloor> \<le> b - of_int \<lfloor>b\<rfloor>" using ab by simp
    then show ?thesis using True by (auto simp: rhe_def)
  next
    case False
    then have "\<lfloor>a\<rfloor> < \<lfloor>b\<rfloor>" using floor_mono [OF ab] by simp
    then show ?thesis using bounds [of a] bounds [of b] by linarith
  qed
  have "x * 10 ^ n \<le> y * 10 ^ n" using assms by simp
  from mono [OF this] show ?thesis
    by (simp add: pr divide_right_mono)
qed

lemma format_predictions_ok:
  assumes "\<forall>(v, i) \<in> set r. map_of labels (int i) \<noteq> None"
  shows "format_predictions labels r
     = Inr (map (\<lambda>(v, i). \<lparr>label = the (map_of labels (int i)), confidence = py_round v 4\<rparr>) r)"
  using assms by (induction r) auto

lemma topk_rows_single:
  "topk lb row k = Inr r \<Longrightarrow> topk_rows lb [row] k = Inr [r]"
  by simp

lemma length_softmax: "length (softmax xs) = length xs"
  by (simp add: softmax_def)

lemma topk_contractD:
  assumes "topk_contract lb"
  shows "case topk lb row k of
           Inl e \<Rightarrow> (k < 0 \<or> int (length row) < k) \<and> (\<exists>m. e = RuntimeError m)
         | Inr r \<Rightarrow>
             0 \<le> k \<and> k \<le> int (length row) \<and> length r = nat k \<and>
             (\<forall>(v, i) \<in> set r. i < length row \<and> v = row ! i) \<and>
             distinct (map snd r) \<and>
             sorted_wrt (\<lambda>a b. b \<le> a) (map fst r) \<and>
             (\<forall>j < length row. j \<notin> snd ` set r \<longrightarrow> (\<forall>v \<in> fst ` set r. row ! j \<le> v))"
  using assms unfolding topk_contract_def by blast

section \<open>Error responses\<close>

lemma infer_of_predict_error:
  "predict lb env st p (TOP_K cfg) = Inl (HTTPException c d)
     \<Longrightarrow> infer lb cfg env st p = Inl (HTTPException c d)"
  by (simp add: infer_def)

lemma load_image_missing:
  "open_file (image_files env) p = Inl (FileNotFoundError m)
     \<Longrightarrow> load_image lb env p = Inl (FileNotFoundError (''Image file not found: '' @ p))"
  by (simp add: load_image_def Image_open_def)



lemma preprocess_truncated:
  assumes "open_file (image_files env) p = Inr (Encoded im)" and "data im = Inl msg"
  shows "preprocess_from_path lb (ImagePreprocessor_init lb sz) env p
     = Inl (IOError (if mode im \<noteq> RGB then ''Error loading image '' @ p @ '': '' @ msg else msg))"
  using assms
  by (simp add: preprocess_from_path_def load_image_def Image_open_def ensure_RGB_def
      convert_RGB_def preprocess_def ImagePreprocessor_init_def Resize_def)

lemma infer_missing:
  assumes "model st = Some m" and "labels_map st = Some labels" and "preprocessor st = Some pre"
    and "open_file (image_files fs) p = Inl (FileNotFoundError x)"
  shows "infer lb cfg fs st p = Inl (HTTPException 404 (''Image file not found: '' @ p))"
  using load_image_missing [OF assms(4), of lb]
  by (intro infer_of_predict_error)
    (simp add: predict_ready [OF assms(1-3)] predict_try_def preprocess_from_path_def)



lemma infer_truncated:
  assumes "model st = Some m" and "labels_map st = Some labels"
    and "preprocessor st = Some (ImagePreprocessor_init lb sz)"
    and "open_file (image_files fs) p = Inr (Encoded im)" and "data im = Inl msg"
  shows "infer lb cfg fs st p
           = Inl (HTTPException 500 (''Inference error: ''
                    @ (if mode im \<noteq> RGB then ''Error loading image '' @ p @ '': '' @ msg
                       else msg)))"
  using preprocess_truncated [OF assms(4,5), of lb sz]
  by (intro infer_of_predict_error) (simp add: predict_ready [OF assms(1-3)] predict_try_def)










lemma started_species:
  "lifespan example_lib (example_config k) (example_env species [2, 5, 1 / 10]) uninitialized
     = (started species [2, 5, 1 / 10], None)"
  "model (started species [2, 5, 1 / 10]) = Some (example_state_dict [2, 5, 1 / 10])"
  "labels_map (started species [2, 5, 1 / 10])
     = Some [(0, ''echeveria_elegans''), (1, ''haworthia_fasciata''), (2, ''sedum_morganianum'')]"
  "preprocessor (started species [2, 5, 1 / 10]) = Some (ImagePreprocessor_init example_lib IMG_SIZE)"
  using example_lifespan [OF int_keys_species, of "[2, 5, 1 / 10]" k]
    started_eq [OF int_keys_species, of "[2, 5, 1 / 10]"]
  by simp_all

lemma absent_file:
  "open_file (image_files (example_env kvs b)) ''absent.jpg''
     = Inl (FileNotFoundError (errno2 ''absent.jpg''))"
  by (simp add: open_file_def example_env_def)



lemma started_twice_zero:
  "lifespan example_lib (example_config k) (example_env twice_zero [0, 0]) uninitialized
     = (started twice_zero [0, 0], None)"
  "model (started twice_zero [0, 0]) = Some (example_state_dict [0, 0])"
  "labels_map (started twice_zero [0, 0])
     = Some [(0, ''haworthia_fasciata''), (2, ''sedum_morganianum'')]"
  "preprocessor (started twice_zero [0, 0]) = Some (ImagePreprocessor_init example_lib IMG_SIZE)"
  using example_lifespan [OF int_keys_twice_zero, of "[0, 0]" k]
    started_eq [OF int_keys_twice_zero, of "[0, 0]"]
  by simp_all

lemma infer_gap:
  "infer example_lib (example_config 3) (example_env twice_zero [0, 0])
        (started twice_zero [0, 0]) ''rosette.jpg''
      = Inl (HTTPException 500 ''Inference error: 1'')"
  by (intro infer_of_predict_error)
    (simp add: example_predict [OF int_keys_twice_zero] example_config_def rank_gap)


text \<open>
  C5, as the code has it. Every failing request is answered with an \<open>HTTPException\<close>
  of status 404 or 500 whose detail is text: for 404 the request's path after
  \<open>Image file not found:\<close>; for 500 the \<^verbatim>\<open>str\<close> of the exception that \<open>predict\<close>
  caught after \<open>Inference error:\<close>, or the \<^verbatim>\<open>str\<close> of the exception that the handler
  caught (the service is not initialized, or the prediction list is empty).
\<close>

theorem infer_failures:
  assumes "infer lb cfg env st p = Inl err"
  shows "((model st = None \<or> labels_map st = None \<or> preprocessor st = None)
            \<and> err = HTTPException 500 ''Model not loaded. Service not initialized properly.'')
       \<or> (\<exists>m labels pre. model st = Some m \<and> labels_map st = Some labels
              \<and> preprocessor st = Some pre
              \<and> ((\<exists>x. predict_try lb env m labels pre p (TOP_K cfg) = Inl (FileNotFoundError x)
                       \<and> err = HTTPException 404 (''Image file not found: '' @ p))
                 \<or> (\<exists>e. predict_try lb env m labels pre p (TOP_K cfg) = Inl e
                       \<and> (\<forall>x. e \<noteq> FileNotFoundError x)
                       \<and> err = HTTPException 500 (''Inference error: '' @ str e))
                 \<or> (predict_try lb env m labels pre p (TOP_K cfg) = Inr []
                       \<and> err = HTTPException 500 ''list index out of range'')))"
proof (cases "model st = None \<or> labels_map st = None \<or> preprocessor st = None")
  case True
  then have "infer lb cfg env st p
      = Inl (HTTPException 500 ''Model not loaded. Service not initialized properly.'')"
    by (auto simp: predict_def infer_def split: option.splits)
  with assms True show ?thesis by simp
next
  case False
  then obtain m labels pre where st: "model st = Some m" "labels_map st = Some labels"
    "preprocessor st = Some pre"
    by auto
  note pr = predict_ready [OF st, of lb env p "TOP_K cfg"]
  show ?thesis
  proof (cases "predict_try lb env m labels pre p (TOP_K cfg)")
    case (Inl e)
    show ?thesis
    proof (cases "\<exists>x. e = FileNotFoundError x")
      case True
      then show ?thesis
        using assms st Inl by (auto simp: infer_def pr)
    next
      case False
      then have "predict lb env st p (TOP_K cfg)
          = Inl (HTTPException 500 (''Inference error: '' @ str e))"
        using Inl by (cases e) (simp_all add: pr)
      then show ?thesis
        using assms st Inl False by (auto simp: infer_def)
    qed
  next
    case (Inr ps)
    then show ?thesis
      using assms st by (cases ps) (auto simp: infer_def pr)
  qed
qed


theorem infer_failures_witness:
  "infer example_lib (example_config 3) (example_env species [2, 5, 1 / 10])
        (started species [2, 5, 1 / 10]) ''cut.jpg''
      = Inl (HTTPException 500 ''Inference error: image file is truncated'')
   \<and> (\<exists>m labels pre e. model (started species [2, 5, 1 / 10]) = Some m
         \<and> labels_map (started species [2, 5, 1 / 10]) = Some labels
         \<and> preprocessor (started species [2, 5, 1 / 10]) = Some pre
         \<and> predict_try example_lib (example_env species [2, 5, 1 / 10]) m labels pre ''cut.jpg'' 3
             = Inl e
         \<and> HTTPException 500 ''Inference error: image file is truncated''
             = HTTPException 500 (''Inference error: '' @ str e))"
proof -
  let ?E = "example_env species [2, 5, 1 / 10]"
  have d: "data truncated_image = Inl ''image file is truncated''"
    and m: "mode truncated_image = RGB"
    by (simp_all add: truncated_image_def)
  have h: "infer example_lib (example_config 3) ?E (started species [2, 5, 1 / 10]) ''cut.jpg''
      = Inl (HTTPException 500 ''Inference error: image file is truncated'')"
    using infer_truncated [OF started_species(2-4) example_files(3) d,
        where cfg = "example_config 3"] m
    by simp
  from infer_failures [OF h] show ?thesis
    using h by (auto simp: started_species example_config_def)
qed

text \<open>
  The detail of a failing request carries the text of the library's exception, and the
  path of the request.
\<close>

theorem infer_detail_counterexample:
  "infer example_lib (example_config 3) (example_env species [2, 5, 1 / 10])
        (started species [2, 5, 1 / 10]) ''cut.jpg''
      = Inl (HTTPException 500 (''Inference error: '' @ str (IOError ''image file is truncated'')))
   \<and> infer example_lib (example_config 3) (example_env species [2, 5, 1 / 10])
        (started species [2, 5, 1 / 10]) ''absent.jpg''
      = Inl (HTTPException 404 (''Image file not found: '' @ ''absent.jpg''))"
proof -
  have d: "data truncated_image = Inl ''image file is truncated''"
    and m: "mode truncated_image = RGB"
    by (simp_all add: truncated_image_def)
  show ?thesis
    using infer_truncated [OF started_species(2-4) example_files(3) d,
        where cfg = "example_config 3"] m
      infer_missing [OF started_species(2-4) absent_file,
        where cfg = "example_config 3" and lb = example_lib]
    by simp
qed

section \<open>The first prediction\<close>

lemma infer_error_is_http:
  "infer lb cfg env st p = Inl err \<Longrightarrow> \<exists>c d. err = HTTPException c d"
  by (auto simp: infer_def split: sum.splits list.splits exn.splits)

lemma infer_nonempty:
  "infer lb cfg env st p = Inr resp \<Longrightarrow> predictions resp \<noteq> []"
  by (auto simp: infer_def split: sum.splits list.splits exn.splits)

lemma rank_empty_table:
  assumes "topk_contract lb"
  shows "(\<exists>m. rank lb [] k [[]] = Inl (RuntimeError m)) \<or> rank lb [] k [[]] = Inr []"
    and "0 \<le> k \<Longrightarrow> rank lb [] k [[]] = Inr []"
proof -
  let ?k = "min k (int (length ([] :: (int \<times> string) list)))"
  have c: "case topk lb [] ?k of
           Inl e \<Rightarrow> (?k < 0 \<or> int (length ([] :: real list)) < ?k) \<and> (\<exists>m. e = RuntimeError m)
         | Inr r \<Rightarrow> 0 \<le> ?k \<and> length r = nat ?k"
    using topk_contractD [OF assms, where row = "[]" and k = ?k]
    by (auto split: sum.splits)
  show "(\<exists>m. rank lb [] k [[]] = Inl (RuntimeError m)) \<or> rank lb [] k [[]] = Inr []"
    using c by (auto simp: rank_def softmax_def split: sum.splits)
  show "rank lb [] k [[]] = Inr []" if "0 \<le> k"
    using c that by (auto simp: rank_def softmax_def split: sum.splits)
qed

lemma infer_empty_table:
  assumes "topk_contract lb" and "lifespan lb cfg env st0 = (st, None)"
    and "labels_map st = Some []"
  shows "\<exists>c d. infer lb cfg fs st p = Inl (HTTPException c d)"
    and "0 \<le> TOP_K cfg \<Longrightarrow> open_file (image_files fs) p = Inr (Encoded im) \<Longrightarrow> data im = Inr px
           \<Longrightarrow> infer lb cfg fs st p = Inl (HTTPException 500 ''list index out of range'')"
proof -
  from lifespan_ready [OF assms(2)] assms(3) obtain m where
    lm: "load_model env (MODEL_PATH cfg) 0 = Inr m"
    and st: "model st = Some m" "labels_map st = Some []"
      "preprocessor st = Some (ImagePreprocessor_init lb IMG_SIZE)"
    by auto
  from load_model_shapes [OF lm] have w: "weight m = []" by simp
  have fw: "forward m [t] = [[]]" for t
    by (simp add: forward_def linear_def w)
  note pr = predict_ready [OF st, of lb fs p "TOP_K cfg"]
  have body: "(\<exists>e. predict_try lb fs m [] (ImagePreprocessor_init lb IMG_SIZE) p (TOP_K cfg) = Inl e)
      \<or> predict_try lb fs m [] (ImagePreprocessor_init lb IMG_SIZE) p (TOP_K cfg) = Inr []"
  proof (cases "preprocess_from_path lb (ImagePreprocessor_init lb IMG_SIZE) fs p")
    case (Inl e)
    then show ?thesis by (simp add: predict_try_def)
  next
    case (Inr t4)
    then obtain t where "t4 = [t]"
      by (auto simp: preprocess_from_path_def preprocess_def unsqueeze0_def split: sum.splits)
    with Inr rank_empty_table(1) [OF assms(1), of "TOP_K cfg"] show ?thesis
      by (auto simp: predict_try_def fw)
  qed
  have "\<exists>err. infer lb cfg fs st p = Inl err"
    using body by (cases "infer lb cfg fs st p") (auto simp: infer_def pr split: exn.splits)
  then show "\<exists>c d. infer lb cfg fs st p = Inl (HTTPException c d)"
    using infer_error_is_http by blast
  show "infer lb cfg fs st p = Inl (HTTPException 500 ''list index out of range'')"
    if k: "0 \<le> TOP_K cfg" and f: "open_file (image_files fs) p = Inr (Encoded im)" and d: "data im = Inr px"
  proof -
    from preprocess_single [OF f d, of lb] obtain t where
      "preprocess_from_path lb (ImagePreprocessor_init lb IMG_SIZE) fs p = Inr [t]" by blast
    then have "predict_try lb fs m [] (ImagePreprocessor_init lb IMG_SIZE) p (TOP_K cfg) = Inr []"
      using rank_empty_table(2) [OF assms(1) k] by (simp add: predict_try_def fw)
    then show ?thesis
      by (simp add: infer_def pr)
  qed
qed

text \<open>
  C10. A successful response of the handler holds at least one prediction. With an
  empty label table, in a state that startup has completed, no request succeeds: the
  answer is an \<open>HTTPException\<close>, and for an image that decodes and a \<open>TOP_K\<close> that is
  not negative it is status 500 with the text of the \<^verbatim>\<open>IndexError\<close> that reading
  \<^verbatim>\<open>predictions[0]\<close> raises.
\<close>

theorem infer_success_nonempty:
  "(infer lb cfg fs st p = Inr resp \<longrightarrow> predictions resp \<noteq> [])
   \<and> (topk_contract lb \<and> lifespan lb cfg env st0 = (st, None) \<and> labels_map st = Some []
        \<longrightarrow> (\<exists>c d. infer lb cfg fs st p = Inl (HTTPException c d))
            \<and> (0 \<le> TOP_K cfg \<and> open_file (image_files fs) p = Inr (Encoded im) \<and> data im = Inr px
                 \<longrightarrow> infer lb cfg fs st p = Inl (HTTPException 500 ''list index out of range'')))"
proof (intro conjI impI)
  assume "infer lb cfg fs st p = Inr resp"
  then show "predictions resp \<noteq> []" by (rule infer_nonempty)
next
  assume a: "topk_contract lb \<and> lifespan lb cfg env st0 = (st, None) \<and> labels_map st = Some []"
  then show "\<exists>c d. infer lb cfg fs st p = Inl (HTTPException c d)"
    using infer_empty_table(1) by blast
  assume "0 \<le> TOP_K cfg \<and> open_file (image_files fs) p = Inr (Encoded im) \<and> data im = Inr px"
  with a show "infer lb cfg fs st p = Inl (HTTPException 500 ''list index out of range'')"
    using infer_empty_table(2) by blast
qed

lemma softmax_zeros3: "softmax [0, 0, 0] = [1 / 3, 1 / 3, 1 / 3]"
  by (simp add: softmax_def)

lemma topk_stable_thirds:
  "topk_stable [1 / 3, 1 / 3, 1 / 3] 3 = Inr [(1 / 3, 0), (1 / 3, 1), (1 / 3, 2)]"
  by (simp add: topk_stable_def)

lemma py_round_third: "py_round (1 / 3) 4 = 3333 / 10000"
  by (simp add: py_round_def Let_def)

lemma rank_uniform:
  "rank example_lib [(0, ''echeveria_elegans''), (1, ''haworthia_fasciata''), (2, ''sedum_morganianum'')]
      3 [[0, 0, 0]]
   = Inr [\<lparr>label = ''echeveria_elegans'', confidence = 3333 / 10000\<rparr>,
          \<lparr>label = ''haworthia_fasciata'', confidence = 3333 / 10000\<rparr>,
          \<lparr>label = ''sedum_morganianum'', confidence = 3333 / 10000\<rparr>]"
  by (simp add: rank_def softmax_zeros3 example_topk topk_stable_thirds py_round_third)

lemma infer_uniform:
  "infer example_lib (example_config 3) (example_env species [0, 0, 0]) (started species [0, 0, 0])
      ''rosette.jpg''
   = Inr \<lparr>predictions =
         [\<lparr>label = ''echeveria_elegans'', confidence = 3333 / 10000\<rparr>,
          \<lparr>label = ''haworthia_fasciata'', confidence = 3333 / 10000\<rparr>,
          \<lparr>label = ''sedum_morganianum'', confidence = 3333 / 10000\<rparr>]\<rparr>"
  by (simp add: infer_def example_predict [OF int_keys_species] example_config_def rank_uniform)

lemma int_keys_none: "int_keys example_lib (dict_of_pairs []) [] = Inr []"
  by (simp add: dict_of_pairs_def)

theorem infer_success_nonempty_witness:
  "infer example_lib (example_config 3) (example_env species [0, 0, 0]) (started species [0, 0, 0])
      ''rosette.jpg''
   = Inr \<lparr>predictions =
         [\<lparr>label = ''echeveria_elegans'', confidence = 3333 / 10000\<rparr>,
          \<lparr>label = ''haworthia_fasciata'', confidence = 3333 / 10000\<rparr>,
          \<lparr>label = ''sedum_morganianum'', confidence = 3333 / 10000\<rparr>]\<rparr>
   \<and> predictions \<lparr>predictions =
         [\<lparr>label = ''echeveria_elegans'', confidence = 3333 / 10000\<rparr>,
          \<lparr>label = ''haworthia_fasciata'', confidence = 3333 / 10000\<rparr>,
          \<lparr>label = ''sedum_morganianum'', confidence = 3333 / 10000\<rparr>]\<rparr> \<noteq> []
   \<and> topk_contract example_lib
   \<and> lifespan example_lib (example_config 3) (example_env [] []) uninitialized
       = (started [] [], None)
   \<and> labels_map (started [] []) = Some []
   \<and> 0 \<le> TOP_K (example_config 3)
   \<and> open_file (image_files (example_env [] [])) ''rosette.jpg'' = Inr (Encoded (example_image RGB))
   \<and> data (example_image RGB) = Inr (\<lambda>x y c. (x + y + c) mod 256)
   \<and> infer example_lib (example_config 3) (example_env [] []) (started [] []) ''rosette.jpg''
       = Inl (HTTPException 500 ''list index out of range'')"
proof -
  let ?R = "\<lparr>predictions =
         [\<lparr>label = ''echeveria_elegans'', confidence = 3333 / 10000\<rparr>,
          \<lparr>label = ''haworthia_fasciata'', confidence = 3333 / 10000\<rparr>,
          \<lparr>label = ''sedum_morganianum'', confidence = 3333 / 10000 :: real\<rparr>]\<rparr>"
  have ls: "lifespan example_lib (example_config 3) (example_env [] []) uninitialized
       = (started [] [], None)"
    and lm: "labels_map (started [] []) = Some []"
    using example_lifespan [OF int_keys_none, of "[]" 3] started_eq [OF int_keys_none, of "[]"]
    by simp_all
  have k: "0 \<le> TOP_K (example_config 3)" by (simp add: example_config_def)
  have d: "data (example_image RGB) = Inr (\<lambda>x y c. (x + y + c) mod 256)"
    by (simp add: example_image_def)
  note f = example_files(4) [of "[]" "[]"]
  have c1: "predictions ?R \<noteq> []"
    using infer_success_nonempty [where lb = example_lib and cfg = "example_config 3"
        and fs = "example_env species [0, 0, 0]" and st = "started species [0, 0, 0]"
        and p = "''rosette.jpg''" and resp = ?R, THEN conjunct1] infer_uniform
    by blast
  have c2: "infer example_lib (example_config 3) (example_env [] []) (started [] []) ''rosette.jpg''
       = Inl (HTTPException 500 ''list index out of range'')"
    using infer_success_nonempty [where lb = example_lib and cfg = "example_config 3"
        and fs = "example_env [] []" and st = "started [] []" and p = "''rosette.jpg''"
        and env = "example_env [] []" and ?st0.0 = uninitialized and im = "example_image RGB"
        and px = "\<lambda>x y c. (x + y + c) mod 256", THEN conjunct2]
      topk_stable_contract ls lm k f d
    by blast
  from infer_uniform c1 topk_stable_contract ls lm k f d c2 show ?thesis by blast
qed

section \<open>Ranked predictions\<close>

lemma dense_lookup:
  assumes "fst ` set labels = int ` {0..<length labels}" and "i < length labels"
  shows "map_of labels (int i) \<noteq> None"
proof -
  have "int i \<in> fst ` set labels" using assms by simp
  then show ?thesis by (simp add: map_of_eq_None_iff)
qed

lemma distinct_labels:
  assumes "distinct (map snd labels)" and "distinct (map snd sel)"
    and "\<forall>(v, i) \<in> set sel. map_of labels (int i) \<noteq> None"
  shows "distinct (map label
           (map (\<lambda>(v, i). \<lparr>label = the (map_of labels (int i)), confidence = py_round v 4\<rparr>) sel))"
proof -
  have inj: "inj_on (\<lambda>i. the (map_of labels (int i))) (set (map snd sel))"
  proof (rule inj_onI)
    fix a b
    assume a: "a \<in> set (map snd sel)" and b: "b \<in> set (map snd sel)"
      and eq: "the (map_of labels (int a)) = the (map_of labels (int b))"
    from a assms(3) obtain x where x: "map_of labels (int a) = Some x" by fastforce
    from b assms(3) obtain y where y: "map_of labels (int b) = Some y" by fastforce
    from eq x y have xy: "x = y" by simp
    have "(int a, x) \<in> set labels" "(int b, x) \<in> set labels"
      using x y xy by (auto dest: map_of_SomeD)
    moreover have "inj_on snd (set labels)"
      using assms(1) by (simp add: distinct_map)
    ultimately have "(int a, x) = (int b, x)"
      using inj_onD [of snd "set labels" "(int a, x)" "(int b, x)"] by simp
    then show "a = b" by simp
  qed
  have "map label (map (\<lambda>(v, i). \<lparr>label = the (map_of labels (int i)), confidence = py_round v 4\<rparr>) sel)
      = map (\<lambda>i. the (map_of labels (int i))) (map snd sel)"
    by (induction sel) auto
  then show ?thesis
    using inj assms(2) by (simp only: distinct_map)
qed

lemma sorted_confidence:
  assumes "sorted_wrt (\<lambda>a b. b \<le> a) (map fst sel)"
  shows "sorted_wrt (\<lambda>a b. confidence b \<le> confidence a)
           (map (\<lambda>(v, i). \<lparr>label = the (map_of labels (int i)), confidence = py_round v 4\<rparr>) sel)"
proof -
  have "sorted_wrt (\<lambda>x y. fst y \<le> fst x) sel"
    using assms by (simp add: sorted_wrt_map)
  then have "sorted_wrt (\<lambda>x y. py_round (fst y) 4 \<le> py_round (fst x) 4) sel"
    by (rule sorted_wrt_mono_rel [rotated]) (simp add: py_round_mono)
  then show ?thesis
    by (simp add: sorted_wrt_map case_prod_beta)
qed

text \<open>
  C1, as the code has it. Let startup have completed with a label table whose keys are
  exactly \<open>0\<close> to \<open>N - 1\<close>, \<open>N\<close> at least 1, let \<open>TOP_K\<close> be at least 1 and let the
  image of the request decode, with any \<open>topk\<close> that keeps the documented contract.
  Then the handler returns \<open>min TOP_K N\<close> predictions. They are the entries that
  \<open>topk\<close> selected among the softmax probabilities of the model's scores: distinct
  class indices, no unselected probability above a selected one, in non-increasing
  order of probability. Each is the label that the table gives for the index, with the
  probability rounded to 4 places, so the confidences are non-increasing as well, and
  the labels are distinct when the labels of the table are. Nothing is said about the
  order of equal probabilities or equal confidences.
\<close>

theorem infer_ranked:
  assumes contract: "topk_contract lb"
    and ready: "lifespan lb cfg env st0 = (st, None)"
    and table: "labels_map st = Some labels"
    and dense: "fst ` set labels = int ` {0..<length labels}"
    and classes: "labels \<noteq> []"
    and top_k: "1 \<le> TOP_K cfg"
    and img: "open_file (image_files fs) p = Inr (Encoded im)"
    and pixels: "data im = Inr px"
  shows "\<exists>m t sel ps.
           model st = Some m
         \<and> preprocess_from_path lb (ImagePreprocessor_init lb IMG_SIZE) fs p = Inr [t]
         \<and> infer lb cfg fs st p = Inr \<lparr>predictions = ps\<rparr>
         \<and> ps = map (\<lambda>(v, i). \<lparr>label = the (map_of labels (int i)), confidence = py_round v 4\<rparr>) sel
         \<and> length ps = min (nat (TOP_K cfg)) (length labels)
         \<and> (\<forall>(v, i) \<in> set sel. i < length labels \<and> map_of labels (int i) \<noteq> None
               \<and> v = softmax (linear (weight m) (bias m) (features m t)) ! i)
         \<and> distinct (map snd sel)
         \<and> (\<forall>j < length labels. j \<notin> snd ` set sel
               \<longrightarrow> (\<forall>v \<in> fst ` set sel. softmax (linear (weight m) (bias m) (features m t)) ! j \<le> v))
         \<and> sorted_wrt (\<lambda>a b. b \<le> a) (map fst sel)
         \<and> sorted_wrt (\<lambda>a b. confidence b \<le> confidence a) ps
         \<and> (distinct (map snd labels) \<longrightarrow> distinct (map label ps))"
proof -
  from lifespan_ready [OF ready] table obtain m where
    lm: "load_model env (MODEL_PATH cfg) (length labels) = Inr m"
    and st: "model st = Some m" "labels_map st = Some labels"
      "preprocessor st = Some (ImagePreprocessor_init lb IMG_SIZE)"
    by auto
  from load_model_shapes [OF lm] have shp: "length (weight m) = length labels"
    "length (bias m) = length labels" by simp_all
  from preprocess_single [OF img pixels, of lb] obtain t where
    pre: "preprocess_from_path lb (ImagePreprocessor_init lb IMG_SIZE) fs p = Inr [t]" by blast
  define probs where "probs = softmax (linear (weight m) (bias m) (features m t))"
  define k where "k = min (TOP_K cfg) (int (length labels))"
  have lp: "length probs = length labels"
    by (simp add: probs_def length_softmax length_linear shp)
  have k1: "1 \<le> k" and kn: "k \<le> int (length probs)"
    using top_k classes by (simp_all add: k_def lp Suc_le_eq)
  have nk: "nat k = min (nat (TOP_K cfg)) (length labels)"
    using top_k by (simp add: k_def min_def) linarith
  from topk_contractD [OF contract, where row = probs and k = k] k1 kn
  obtain sel where tk: "topk lb probs k = Inr sel" and len: "length sel = nat k"
    and mem: "\<forall>(v, i) \<in> set sel. i < length probs \<and> v = probs ! i"
    and dist: "distinct (map snd sel)"
    and srt: "sorted_wrt (\<lambda>a b. b \<le> a) (map fst sel)"
    and mx: "\<forall>j < length probs. j \<notin> snd ` set sel \<longrightarrow> (\<forall>v \<in> fst ` set sel. probs ! j \<le> v)"
    by (cases "topk lb probs k") auto
  have look: "\<forall>(v, i) \<in> set sel. map_of labels (int i) \<noteq> None"
    using mem dense_lookup [OF dense] by (auto simp: lp)
  define ps where
    "ps = map (\<lambda>(v, i). \<lparr>label = the (map_of labels (int i)), confidence = py_round v 4\<rparr>) sel"
  have rk: "rank lb labels (TOP_K cfg) [linear (weight m) (bias m) (features m t)] = Inr ps"
    using tk format_predictions_ok [OF look]
    by (simp add: rank_def probs_def [symmetric] k_def [symmetric] ps_def)
  have pt: "predict_try lb fs m labels (ImagePreprocessor_init lb IMG_SIZE) p (TOP_K cfg) = Inr ps"
    by (simp add: predict_try_def pre forward_single rk)
  have lps: "length ps = min (nat (TOP_K cfg)) (length labels)"
    by (simp add: ps_def len nk)
  moreover have "0 < nat (TOP_K cfg)" "0 < length labels"
    using top_k classes by simp_all
  ultimately have "ps \<noteq> []"
    by (cases ps) (simp_all add: min_def split: if_splits)
  then have inf: "infer lb cfg fs st p = Inr \<lparr>predictions = ps\<rparr>"
    by (cases ps) (simp_all add: infer_def predict_ready [OF st] pt)
  have mem': "\<forall>(v, i) \<in> set sel. i < length labels \<and> map_of labels (int i) \<noteq> None
               \<and> v = probs ! i"
    using mem look by (auto simp: lp)
  have mx': "\<forall>j < length labels. j \<notin> snd ` set sel \<longrightarrow> (\<forall>v \<in> fst ` set sel. probs ! j \<le> v)"
    using mx by (simp add: lp)
  have sc: "sorted_wrt (\<lambda>a b. confidence b \<le> confidence a) ps"
    unfolding ps_def by (rule sorted_confidence [OF srt])
  have dl: "distinct (map snd labels) \<longrightarrow> distinct (map label ps)"
    unfolding ps_def using distinct_labels [OF _ dist look] by blast
  show ?thesis
    using st(1) pre inf ps_def lps mem' dist mx' srt sc dl
    unfolding probs_def by blast
qed


lemma species_dense:
  "fst ` set [(0 :: int, ''echeveria_elegans''), (1, ''haworthia_fasciata''), (2, ''sedum_morganianum'')]
     = int ` {0..<length [(0 :: int, ''echeveria_elegans''), (1, ''haworthia_fasciata''),
                          (2, ''sedum_morganianum'')]}"
proof -
  have "{0..<length [(0 :: int, ''echeveria_elegans''), (1, ''haworthia_fasciata''),
                          (2, ''sedum_morganianum'')]} = {0, 1, 2}"
    by auto
  then show ?thesis
    by (simp only:) simp
qed

theorem infer_ranked_witness:
  "topk_contract example_lib
   \<and> lifespan example_lib (example_config 3) (example_env species [0, 0, 0]) uninitialized
       = (started species [0, 0, 0], None)
   \<and> labels_map (started species [0, 0, 0])
       = Some [(0, ''echeveria_elegans''), (1, ''haworthia_fasciata''), (2, ''sedum_morganianum'')]
   \<and> 1 \<le> TOP_K (example_config 3)
   \<and> open_file (image_files (example_env species [0, 0, 0])) ''rosette.jpg'' = Inr (Encoded (example_image RGB))
   \<and> data (example_image RGB) = Inr (\<lambda>x y c. (x + y + c) mod 256)
   \<and> (\<exists>sel ps.
         infer example_lib (example_config 3) (example_env species [0, 0, 0])
           (started species [0, 0, 0]) ''rosette.jpg'' = Inr \<lparr>predictions = ps\<rparr>
       \<and> ps = map (\<lambda>(v, i). \<lparr>label = the (map_of [(0, ''echeveria_elegans''),
                       (1, ''haworthia_fasciata''), (2, ''sedum_morganianum'')] (int i)),
                     confidence = py_round v 4\<rparr>) sel
       \<and> length ps = 3
       \<and> distinct (map snd sel)
       \<and> sorted_wrt (\<lambda>a b. confidence b \<le> confidence a) ps
       \<and> distinct (map label ps))"
proof -
  let ?T = "[(0 :: int, ''echeveria_elegans''), (1, ''haworthia_fasciata''), (2, ''sedum_morganianum'')]"
  let ?E = "example_env species [0, 0, 0]"
  have ls: "lifespan example_lib (example_config 3) ?E uninitialized = (started species [0, 0, 0], None)"
    and lm: "labels_map (started species [0, 0, 0]) = Some ?T"
    using example_lifespan [OF int_keys_species, of "[0, 0, 0]" 3]
      started_eq [OF int_keys_species, of "[0, 0, 0]"]
    by simp_all
  have k: "1 \<le> TOP_K (example_config 3)" by (simp add: example_config_def)
  have d: "data (example_image RGB) = Inr (\<lambda>x y c. (x + y + c) mod 256)"
    by (simp add: example_image_def)
  have ne: "?T \<noteq> []" and dv: "distinct (map snd ?T)" by simp_all
  note f = example_files(4) [of species "[0, 0, 0]"]
  from infer_ranked [OF topk_stable_contract ls lm species_dense ne k f d]
  obtain sel ps where
    "infer example_lib (example_config 3) ?E (started species [0, 0, 0]) ''rosette.jpg''
       = Inr \<lparr>predictions = ps\<rparr>"
    "ps = map (\<lambda>(v, i). \<lparr>label = the (map_of ?T (int i)), confidence = py_round v 4\<rparr>) sel"
    "length ps = min (nat (TOP_K (example_config 3))) (length ?T)"
    "distinct (map snd sel)"
    "sorted_wrt (\<lambda>a b. confidence b \<le> confidence a) ps"
    "distinct (map snd ?T) \<longrightarrow> distinct (map label ps)"
    by blast
  moreover have "min (nat (TOP_K (example_config 3))) (length ?T) = 3"
    by (simp add: example_config_def)
  ultimately have "\<exists>sel ps.
         infer example_lib (example_config 3) ?E (started species [0, 0, 0]) ''rosette.jpg''
           = Inr \<lparr>predictions = ps\<rparr>
       \<and> ps = map (\<lambda>(v, i). \<lparr>label = the (map_of ?T (int i)), confidence = py_round v 4\<rparr>) sel
       \<and> length ps = 3
       \<and> distinct (map snd sel)
       \<and> sorted_wrt (\<lambda>a b. confidence b \<le> confidence a) ps
       \<and> distinct (map label ps)"
    using dv by metis
  with topk_stable_contract ls lm k f d show ?thesis by blast
qed

lemma int_keys_same_label:
  "int_keys example_lib (dict_of_pairs [(''0'', ''echeveria_elegans''), (''1'', ''echeveria_elegans'')]) []
     = Inr [(0, ''echeveria_elegans''), (1, ''echeveria_elegans'')]"
  by (simp add: dict_of_pairs_def py_int_keys)

lemma py_round_half: "py_round (1 / 2) 4 = 1 / 2"
  by (simp add: py_round_def Let_def)

lemma rank_same_label:
  "rank example_lib [(0, ''echeveria_elegans''), (1, ''echeveria_elegans'')] 3 [[0, 0]]
     = Inr [\<lparr>label = ''echeveria_elegans'', confidence = 1 / 2\<rparr>,
            \<lparr>label = ''echeveria_elegans'', confidence = 1 / 2\<rparr>]"
  by (simp add: rank_def softmax_zeros2 example_topk topk_stable_halves py_round_half)

lemma softmax_near_tie:
  "softmax [ln 30001, ln 30002, ln 39997] = [30001 / 100000, 15001 / 50000, 39997 / 100000]"
  by (simp add: softmax_def)

lemma topk_stable_near_tie:
  "topk_stable [30001 / 100000, 15001 / 50000, 39997 / 100000] 3
     = Inr [(39997 / 100000, 2), (15001 / 50000, 1), (30001 / 100000, 0)]"
  by (simp add: topk_stable_def)

lemma py_round_near_tie:
  "py_round (39997 / 100000) 4 = 2 / 5" "py_round (15001 / 50000) 4 = 3 / 10"
  "py_round (30001 / 100000) 4 = 3 / 10"
  by (simp_all add: py_round_def Let_def)

lemma rank_near_tie:
  "rank example_lib [(0, ''echeveria_elegans''), (1, ''haworthia_fasciata''), (2, ''sedum_morganianum'')]
      3 [[ln 30001, ln 30002, ln 39997]]
   = Inr [\<lparr>label = ''sedum_morganianum'', confidence = 2 / 5\<rparr>,
          \<lparr>label = ''haworthia_fasciata'', confidence = 3 / 10\<rparr>,
          \<lparr>label = ''echeveria_elegans'', confidence = 3 / 10\<rparr>]"
  by (simp add: rank_def softmax_near_tie example_topk topk_stable_near_tie py_round_near_tie)

text \<open>
  Three states that startup has completed, with \<open>TOP_K = 3\<close>. A label table with a gap
  at index 1: the request fails with status 500. A table that gives two indices the same
  label: the label comes twice. Probabilities 0.30001, 0.30002 and 0.39997: the
  confidences are 0.4, 0.3 and 0.3, not strictly descending, and of the two equal ones
  the higher class index comes first.
\<close>

theorem infer_ranked_counterexample:
  "lifespan example_lib (example_config 3) (example_env twice_zero [0, 0]) uninitialized
     = (started twice_zero [0, 0], None)
   \<and> infer example_lib (example_config 3) (example_env twice_zero [0, 0])
        (started twice_zero [0, 0]) ''rosette.jpg''
     = Inl (HTTPException 500 ''Inference error: 1'')
   \<and> lifespan example_lib (example_config 3)
        (example_env [(''0'', ''echeveria_elegans''), (''1'', ''echeveria_elegans'')] [0, 0])
        uninitialized
     = (started [(''0'', ''echeveria_elegans''), (''1'', ''echeveria_elegans'')] [0, 0], None)
   \<and> infer example_lib (example_config 3)
        (example_env [(''0'', ''echeveria_elegans''), (''1'', ''echeveria_elegans'')] [0, 0])
        (started [(''0'', ''echeveria_elegans''), (''1'', ''echeveria_elegans'')] [0, 0])
        ''rosette.jpg''
     = Inr \<lparr>predictions = [\<lparr>label = ''echeveria_elegans'', confidence = 1 / 2\<rparr>,
                            \<lparr>label = ''echeveria_elegans'', confidence = 1 / 2\<rparr>]\<rparr>
   \<and> lifespan example_lib (example_config 3)
        (example_env species [ln 30001, ln 30002, ln 39997]) uninitialized
     = (started species [ln 30001, ln 30002, ln 39997], None)
   \<and> infer example_lib (example_config 3) (example_env species [ln 30001, ln 30002, ln 39997])
        (started species [ln 30001, ln 30002, ln 39997]) ''rosette.jpg''
     = Inr \<lparr>predictions = [\<lparr>label = ''sedum_morganianum'', confidence = 2 / 5\<rparr>,
                            \<lparr>label = ''haworthia_fasciata'', confidence = 3 / 10\<rparr>,
                            \<lparr>label = ''echeveria_elegans'', confidence = 3 / 10\<rparr>]\<rparr>"
proof -
  have a: "lifespan example_lib (example_config 3)
        (example_env [(''0'', ''echeveria_elegans''), (''1'', ''echeveria_elegans'')] [0, 0])
        uninitialized
     = (started [(''0'', ''echeveria_elegans''), (''1'', ''echeveria_elegans'')] [0, 0], None)"
    using example_lifespan [OF int_keys_same_label, of "[0, 0]" 3]
      started_eq [OF int_keys_same_label, of "[0, 0]"]
    by simp
  have b: "infer example_lib (example_config 3)
        (example_env [(''0'', ''echeveria_elegans''), (''1'', ''echeveria_elegans'')] [0, 0])
        (started [(''0'', ''echeveria_elegans''), (''1'', ''echeveria_elegans'')] [0, 0])
        ''rosette.jpg''
     = Inr \<lparr>predictions = [\<lparr>label = ''echeveria_elegans'', confidence = 1 / 2\<rparr>,
                            \<lparr>label = ''echeveria_elegans'', confidence = 1 / 2\<rparr>]\<rparr>"
    by (simp add: infer_def example_predict [OF int_keys_same_label] example_config_def
        rank_same_label)
  have c: "lifespan example_lib (example_config 3)
        (example_env species [ln 30001, ln 30002, ln 39997]) uninitialized
     = (started species [ln 30001, ln 30002, ln 39997], None)"
    using example_lifespan [OF int_keys_species, of "[ln 30001, ln 30002, ln 39997]" 3]
      started_eq [OF int_keys_species, of "[ln 30001, ln 30002, ln 39997]"]
    by simp
  have d: "infer example_lib (example_config 3) (example_env species [ln 30001, ln 30002, ln 39997])
        (started species [ln 30001, ln 30002, ln 39997]) ''rosette.jpg''
     = Inr \<lparr>predictions = [\<lparr>label = ''sedum_morganianum'', confidence = 2 / 5\<rparr>,
                            \<lparr>label = ''haworthia_fasciata'', confidence = 3 / 10\<rparr>,
                            \<lparr>label = ''echeveria_elegans'', confidence = 3 / 10\<rparr>]\<rparr>"
    by (simp add: infer_def example_predict [OF int_keys_species] example_config_def
        rank_near_tie)
  from started_twice_zero(1) [of 3] infer_gap a b c d show ?thesis by blast
qed

section \<open>The example scores\<close>

lemma exp_one_bounds: "27182818 / 10000000 < exp (1 :: real)" "exp (1 :: real) < 27182819 / 10000000"
proof -
  obtain t :: real where t: "\<bar>t\<bar> \<le> \<bar>1\<bar>"
    and e: "exp 1 = (\<Sum>m<12. (1 ^ m) / fact m) + (exp t / fact 12) * 1 ^ 12"
    using Maclaurin_exp_le [of 1 12] by blast
  have s: "(\<Sum>m<12. (1 ^ m) / fact m :: real) = 13563139 / 4989600"
    by (simp add: eval_nat_numeral)
  have f: "fact 12 = (479001600 :: real)"
    by (simp add: eval_nat_numeral)
  have eq: "exp 1 = 13563139 / 4989600 + exp t / 479001600"
    using e s f by simp
  have pos: "0 < exp t" by simp
  have "exp t \<le> exp 1" using t by simp
  then have le: "exp t \<le> 3" using exp_le by linarith
  show "27182818 / 10000000 < exp (1 :: real)" using eq pos by linarith
  show "exp (1 :: real) < 27182819 / 10000000" using eq le by linarith
qed

lemma exp_tenth_bounds:
  "110517 / 100000 < exp (1 / 10 :: real)" "exp (1 / 10 :: real) < 110518 / 100000"
proof -
  obtain t :: real where t: "\<bar>t\<bar> \<le> \<bar>1 / 10\<bar>"
    and e: "exp (1 / 10) = (\<Sum>m<6. ((1 / 10) ^ m) / fact m) + (exp t / fact 6) * (1 / 10) ^ 6"
    using Maclaurin_exp_le [of "1 / 10" 6] by blast
  have s: "(\<Sum>m<6. ((1 / 10) ^ m) / fact m :: real) = 13262051 / 12000000"
    by (simp add: eval_nat_numeral)
  have f: "fact 6 = (720 :: real)"
    by (simp add: eval_nat_numeral)
  have eq: "exp (1 / 10) = 13262051 / 12000000 + exp t / 720000000"
    using e s f by (simp add: power_divide)
  have pos: "0 < exp t" by simp
  have "exp t \<le> exp 1" using t by simp
  then have le: "exp t \<le> 3" using exp_le by linarith
  show "110517 / 100000 < exp (1 / 10 :: real)" using eq pos by linarith
  show "exp (1 / 10 :: real) < 110518 / 100000" using eq le by linarith
qed

lemma exp_two_bounds: "738905 / 100000 < exp (2 :: real)" "exp (2 :: real) < 738906 / 100000"
proof -
  have e: "exp (2 :: real) = exp 1 ^ 2"
    using exp_of_nat_mult [of 2 "1 :: real"] by simp
  have "(27182818 / 10000000) ^ 2 < exp (1 :: real) ^ 2"
    using exp_one_bounds(1) by (intro power_strict_mono) simp_all
  then show "738905 / 100000 < exp (2 :: real)"
    unfolding e by (simp add: power2_eq_square)
  have "exp (1 :: real) ^ 2 < (27182819 / 10000000) ^ 2"
    using exp_one_bounds(2) by (intro power_strict_mono) simp_all
  then show "exp (2 :: real) < 738906 / 100000"
    unfolding e by (simp add: power2_eq_square)
qed

lemma exp_five_bounds: "1484131 / 10000 < exp (5 :: real)" "exp (5 :: real) < 1484132 / 10000"
proof -
  have e: "exp (5 :: real) = exp 1 ^ 5"
    using exp_of_nat_mult [of 5 "1 :: real"] by simp
  have "(27182818 / 10000000) ^ 5 < exp (1 :: real) ^ 5"
    using exp_one_bounds(1) by (intro power_strict_mono) simp_all
  moreover have "(1484131 / 10000 :: real) < (27182818 / 10000000) ^ 5"
    by (simp add: power_divide)
  ultimately show "1484131 / 10000 < exp (5 :: real)"
    unfolding e by linarith
  have "exp (1 :: real) ^ 5 < (27182819 / 10000000) ^ 5"
    using exp_one_bounds(2) by (intro power_strict_mono) simp_all
  moreover have "(27182819 / 10000000) ^ 5 < (1484132 / 10000 :: real)"
    by (simp add: power_divide)
  ultimately show "exp (5 :: real) < 1484132 / 10000"
    unfolding e by linarith
qed


lemma softmax_example:
  "softmax [2, 5, 1 / 10]
     = [exp 2 / (exp 2 + exp 5 + exp (1 / 10)), exp 5 / (exp 2 + exp 5 + exp (1 / 10)),
        exp (1 / 10) / (exp 2 + exp 5 + exp (1 / 10))]"
  by (simp add: softmax_def add.assoc)

lemma softmax_example_nth:
  "softmax [2, 5, 1 / 10] ! 0 = exp 2 / (exp 2 + exp 5 + exp (1 / 10))"
  "softmax [2, 5, 1 / 10] ! 1 = exp 5 / (exp 2 + exp 5 + exp (1 / 10))"
  by (simp_all add: softmax_example)

lemma softmax_example_bounds:
  fixes s :: real
  defines "s \<equiv> exp 2 + exp 5 + exp (1 / 10)"
  shows "94586 / 100000 < exp 5 / s" and "exp 5 / s < 94587 / 100000"
    and "4709 / 100000 < exp 2 / s" and "exp 2 / s < 47095 / 1000000"
    and "exp (1 / 10) / s < 71 / 10000"
proof -
  note b = exp_two_bounds exp_five_bounds exp_tenth_bounds
  have pos: "0 < s" using b unfolding s_def by linarith
  have "94586 / 100000 * s < exp 5" using b unfolding s_def by argo
  then show "94586 / 100000 < exp 5 / s" using pos by (simp add: pos_less_divide_eq)
  have "exp 5 < 94587 / 100000 * s" using b unfolding s_def by argo
  then show "exp 5 / s < 94587 / 100000" using pos by (simp add: pos_divide_less_eq)
  have "4709 / 100000 * s < exp 2" using b unfolding s_def by argo
  then show "4709 / 100000 < exp 2 / s" using pos by (simp add: pos_less_divide_eq)
  have "exp 2 < 47095 / 1000000 * s" using b unfolding s_def by argo
  then show "exp 2 / s < 47095 / 1000000" using pos by (simp add: pos_divide_less_eq)
  have "exp (1 / 10) < 71 / 10000 * s" using b unfolding s_def by argo
  then show "exp (1 / 10) / s < 71 / 10000" using pos by (simp add: pos_divide_less_eq)
qed

lemma py_round_upper_half:
  assumes "of_int f + 1 / 2 < x * 10 ^ n" and "x * 10 ^ n < of_int f + 1"
  shows "py_round x n = of_int (f + 1) / 10 ^ n"
proof -
  have "\<lfloor>x * 10 ^ n\<rfloor> = f"
    using assms by (intro floor_unique) simp_all
  then show ?thesis
    using assms by (simp add: py_round_def Let_def)
qed

lemma round_near_first:
  assumes "\<bar>q - exp 5 / (exp 2 + exp 5 + exp (1 / 10))\<bar> \<le> 5 / 1000000"
  shows "py_round q 4 = 9459 / 10000"
proof -
  have "945855 / 1000000 < q" "q < 945875 / 1000000"
    using assms softmax_example_bounds(1,2) by linarith+
  then have "of_int 9458 + 1 / 2 < q * 10 ^ 4" "q * 10 ^ 4 < of_int 9458 + 1"
    by simp_all
  from py_round_upper_half [OF this] show ?thesis by simp
qed

lemma round_near_second:
  assumes "\<bar>q - exp 2 / (exp 2 + exp 5 + exp (1 / 10))\<bar> \<le> 5 / 1000000"
  shows "py_round q 4 = 471 / 10000"
proof -
  have "47085 / 1000000 < q" "q < 471 / 10000"
    using assms softmax_example_bounds(3,4) by linarith+
  then have "of_int 470 + 1 / 2 < q * 10 ^ 4" "q * 10 ^ 4 < of_int 470 + 1"
    by simp_all
  from py_round_upper_half [OF this] show ?thesis by simp
qed

lemma topk_three:
  assumes "topk_contract lb" and "c < a" and "a < b"
  shows "topk lb [a, b, c] 2 = Inr [(b, 1), (a, 0)]"
proof (cases "topk lb [a, b, c] 2")
  case (Inl e)
  with topk_contractD [OF assms(1), where row = "[a, b, c]" and k = 2] show ?thesis
    by simp
next
  case (Inr r)
  note c = topk_contractD [OF assms(1), where row = "[a, b, c]" and k = 2, unfolded Inr]
  have len: "length r = 2"
    and mem: "\<forall>(v, i) \<in> set r. i < 3 \<and> v = [a, b, c] ! i"
    and dist: "distinct (map snd r)"
    and srt: "sorted_wrt (\<lambda>x y. y \<le> x) (map fst r)"
    and mx: "\<forall>j < 3. j \<notin> snd ` set r \<longrightarrow> (\<forall>v \<in> fst ` set r. [a, b, c] ! j \<le> v)"
    using c by (simp_all add: eval_nat_numeral)
  from len obtain v1 i1 v2 i2 where r: "r = [(v1, i1), (v2, i2)]"
    by (cases r; cases "tl r") auto
  have i1: "i1 = 0 \<or> i1 = 1 \<or> i1 = 2" and i2: "i2 = 0 \<or> i2 = 1 \<or> i2 = 2"
    using mem r by auto
  have v1: "v1 = [a, b, c] ! i1" and v2: "v2 = [a, b, c] ! i2"
    using mem r by auto
  have ne: "i1 \<noteq> i2" using dist r by simp
  have le: "v2 \<le> v1" using srt r by simp
  have out: "\<And>j. j < 3 \<Longrightarrow> j \<noteq> i1 \<Longrightarrow> j \<noteq> i2 \<Longrightarrow> [a, b, c] ! j \<le> v1 \<and> [a, b, c] ! j \<le> v2"
    using mx r by auto
  have "i1 = 1 \<and> i2 = 0"
    using i1 i2 ne le v1 v2 out [of 0] out [of 1] out [of 2] assms(2,3)
    by (elim disjE) simp_all
  then show ?thesis
    using Inr r v1 v2 by simp
qed

lemma rank_scores_example:
  assumes "topk_contract lb"
  shows "rank lb [(0, ''echeveria_elegans''), (1, ''haworthia_fasciata''), (2, ''sedum_morganianum'')]
           2 [[2, 5, 1 / 10]]
         = Inr [\<lparr>label = ''haworthia_fasciata'', confidence = 9459 / 10000\<rparr>,
                \<lparr>label = ''echeveria_elegans'', confidence = 471 / 10000\<rparr>]"
proof -
  let ?s = "exp 2 + exp 5 + exp (1 / 10) :: real"
  have "exp (1 / 10) / ?s < exp 2 / ?s" "exp 2 / ?s < exp 5 / ?s"
    using softmax_example_bounds by linarith+
  from topk_three [OF assms this]
  have tk: "topk lb [exp 2 / ?s, exp 5 / ?s, exp (1 / 10) / ?s] 2
      = Inr [(exp 5 / ?s, 1), (exp 2 / ?s, 0)]" .
  have r1: "py_round (exp 5 / ?s) 4 = 9459 / 10000"
    by (rule round_near_first) simp
  have r0: "py_round (exp 2 / ?s) 4 = 471 / 10000"
    by (rule round_near_second) simp
  show ?thesis
    unfolding rank_def Let_def by (simp add: softmax_example tk r1 r0)
qed

text \<open>
  C2, as the code has it. With the three labels, \<open>top_k = 2\<close> and the raw scores
  2, 5 and 0.1, softmax and top-k give haworthia_fasciata with confidence 0.9459 (the
  probability is between 0.94586 and 0.94587) and then echeveria_elegans with 0.0471,
  for any \<open>topk\<close> that keeps the documented contract. The rounded values do not depend
  on the last digits of the arithmetic: every number within 0.000005 of the exact
  probability rounds to the same confidence.
\<close>

theorem rank_example:
  "(topk_contract lb \<longrightarrow>
      rank lb [(0, ''echeveria_elegans''), (1, ''haworthia_fasciata''), (2, ''sedum_morganianum'')]
        2 [[2, 5, 1 / 10]]
      = Inr [\<lparr>label = ''haworthia_fasciata'', confidence = 9459 / 10000\<rparr>,
             \<lparr>label = ''echeveria_elegans'', confidence = 471 / 10000\<rparr>])
   \<and> (\<bar>q1 - softmax [2, 5, 1 / 10] ! 1\<bar> \<le> 5 / 1000000 \<longrightarrow> py_round q1 4 = 9459 / 10000)
   \<and> (\<bar>q0 - softmax [2, 5, 1 / 10] ! 0\<bar> \<le> 5 / 1000000 \<longrightarrow> py_round q0 4 = 471 / 10000)"
  using rank_scores_example [of lb] round_near_first [of q1] round_near_second [of q0]
  unfolding softmax_example_nth by blast

theorem rank_example_witness:
  "topk_contract example_lib
   \<and> rank example_lib
       [(0, ''echeveria_elegans''), (1, ''haworthia_fasciata''), (2, ''sedum_morganianum'')]
       2 [[2, 5, 1 / 10]]
     = Inr [\<lparr>label = ''haworthia_fasciata'', confidence = 9459 / 10000\<rparr>,
            \<lparr>label = ''echeveria_elegans'', confidence = 471 / 10000\<rparr>]
   \<and> \<bar>945865 / 1000000 - softmax [2, 5, 1 / 10] ! 1\<bar> \<le> 5 / 1000000
   \<and> py_round (945865 / 1000000) 4 = 9459 / 10000
   \<and> \<bar>47092 / 1000000 - softmax [2, 5, 1 / 10] ! 0\<bar> \<le> 5 / 1000000
   \<and> py_round (47092 / 1000000) 4 = 471 / 10000"
proof -
  have h1: "\<bar>945865 / 1000000 - softmax [2, 5, 1 / 10] ! 1\<bar> \<le> 5 / 1000000"
    unfolding softmax_example_nth using softmax_example_bounds(1,2) by linarith
  have h0: "\<bar>47092 / 1000000 - softmax [2, 5, 1 / 10] ! 0\<bar> \<le> 5 / 1000000"
    unfolding softmax_example_nth using softmax_example_bounds(3,4) by linarith
  note th = rank_example [where lb = example_lib and ?q1.0 = "945865 / 1000000"
      and ?q0.0 = "47092 / 1000000"]
  from th topk_stable_contract h1 h0 show ?thesis by blast
qed

text \<open>The confidence 0.9460 of the specification's example is not what comes out.\<close>

theorem rank_example_counterexample:
  "rank example_lib
       [(0, ''echeveria_elegans''), (1, ''haworthia_fasciata''), (2, ''sedum_morganianum'')]
       2 [[2, 5, 1 / 10]]
     \<noteq> Inr [\<lparr>label = ''haworthia_fasciata'', confidence = 9460 / 10000\<rparr>,
            \<lparr>label = ''echeveria_elegans'', confidence = 471 / 10000\<rparr>]"
  using rank_scores_example [OF topk_stable_contract] by simp

end
